theory Spec2Isabelle
  imports Complex_Main "HOL-Library.Sublist"
begin

section \<open>Numbers, errors and rounding\<close>

text \<open>
  Python floats are modelled as exact real numbers, Python ints as \<open>int\<close>. The built-in
  \<open>round(x, nd)\<close> rounds the exact value of \<open>x\<close> to \<open>nd\<close> decimals, ties going to the even
  neighbour. An exception is a value of \<open>py_error\<close>.
\<close>

datatype py_error =
  TypeError | ValueError | AttributeError | KeyError | HTTPError
  | JSONDecodeError | EstimatorError

definition round_half_even :: "real \<Rightarrow> int" where
  "round_half_even y =
     (let f = \<lfloor>y\<rfloor>; d = y - of_int f
      in if d < 1 / 2 then f
         else if 1 / 2 < d then f + 1
         else if even f then f else f + 1)"

definition py_round :: "nat \<Rightarrow> real \<Rightarrow> real" where
  "py_round nd x = of_int (round_half_even (x * 10 ^ nd)) / 10 ^ nd"

section \<open>services/value\_calculator.py\<close>

definition TYPICAL_MEAL_CALORIES :: real where "TYPICAL_MEAL_CALORIES = 800"
definition TYPICAL_MEAL_PROTEIN :: real where "TYPICAL_MEAL_PROTEIN = 30"
definition TYPICAL_MEAL_PRICE :: real where "TYPICAL_MEAL_PRICE = 9"
definition TYPICAL_PRICE_PER_CALORIE :: real where
  "TYPICAL_PRICE_PER_CALORIE = TYPICAL_MEAL_PRICE / TYPICAL_MEAL_CALORIES"

definition clamp :: "real \<Rightarrow> real \<Rightarrow> real \<Rightarrow> real" where
  "clamp x lo hi = max lo (min hi x)"

text \<open>
  \<open>calculate_satiety_score(calories, protein_grams)\<close>: \<open>None\<close> is the absent argument.
\<close>

definition calculate_satiety_score :: "int option \<Rightarrow> real option \<Rightarrow> real" where
  "calculate_satiety_score calories protein_grams =
     (case calories of
        None \<Rightarrow> 0
      | Some c \<Rightarrow>
          if c \<le> 0 then 0
          else
            let p = (case protein_grams of
                       None \<Rightarrow> 0
                     | Some q \<Rightarrow> if q < 0 then 0 else q);
                cal_component = (of_int c / TYPICAL_MEAL_CALORIES) * 0.7;
                protein_component = (p / TYPICAL_MEAL_PROTEIN) * 0.3;
                raw = cal_component + protein_component;
                score = (1 - 2.718281828 powr (- raw)) * 100
            in py_round 1 (clamp score 0 100))"

definition calculate_price_efficiency_score :: "real option \<Rightarrow> int option \<Rightarrow> real" where
  "calculate_price_efficiency_score price calories =
     (case (price, calories) of
        (Some pr, Some c) \<Rightarrow>
          if pr \<le> 0 \<or> c \<le> 0 then 0
          else
            let deal_ppc = pr / of_int c
            in if deal_ppc \<le> 0 then 0
               else
                 let r = TYPICAL_PRICE_PER_CALORIE / deal_ppc;
                     score = r * 50
                 in py_round 1 (clamp score 0 100)
      | _ \<Rightarrow> 0)"

record scores =
  value_score :: real
  satiety_score :: real
  price_per_calorie :: real
  price_efficiency_score :: real

text \<open>
  \<open>calculate_final_value_score(calories, protein_grams, price)\<close>. The quotient
  \<open>price / calories\<close> is only evaluated when \<open>calories > 0\<close>; with \<open>price = None\<close> it
  raises \<open>TypeError\<close>.
\<close>

definition calculate_final_value_score ::
    "int option \<Rightarrow> real option \<Rightarrow> real option \<Rightarrow> py_error + scores" where
  "calculate_final_value_score calories protein_grams price =
     (let satiety = calculate_satiety_score calories protein_grams;
          price_eff = calculate_price_efficiency_score price calories;
          final_score = satiety * 0.4 + price_eff * 0.6
      in case (case calories of
                 None \<Rightarrow> Inr 0
               | Some c \<Rightarrow>
                   if c \<noteq> 0 \<and> c > 0
                   then (case price of
                           None \<Rightarrow> Inl TypeError
                         | Some pr \<Rightarrow> Inr (py_round 4 (pr / of_int c)))
                   else Inr 0) of
           Inl e \<Rightarrow> Inl e
         | Inr ppc \<Rightarrow>
             Inr \<lparr> value_score = py_round 1 final_score,
                   satiety_score = py_round 1 satiety,
                   price_per_calorie = ppc,
                   price_efficiency_score = py_round 1 price_eff \<rparr>)"


section \<open>Strings and JSON values\<close>

text \<open>
  A Python \<open>str\<close> is a \<open>string\<close> whose characters are the code points below 256; on these
  \<open>str.lower\<close>, \<open>str.isspace\<close> and the regular-expression classes \<open>\s\<close> and \<open>\d\<close> are as
  defined here.
\<close>

definition lower_char :: "char \<Rightarrow> char" where
  "lower_char c =
     (let n = (of_char c :: nat)
      in if (65 \<le> n \<and> n \<le> 90) \<or> (192 \<le> n \<and> n \<le> 222 \<and> n \<noteq> 215)
         then char_of (n + 32) else c)"

definition lower :: "string \<Rightarrow> string" where
  "lower s = map lower_char s"

definition is_space :: "char \<Rightarrow> bool" where
  "is_space c =
     (let n = (of_char c :: nat)
      in (9 \<le> n \<and> n \<le> 13) \<or> (28 \<le> n \<and> n \<le> 32) \<or> n = 133 \<or> n = 160)"

definition is_digit :: "char \<Rightarrow> bool" where
  "is_digit c = (let n = (of_char c :: nat) in 48 \<le> n \<and> n \<le> 57)"

definition strip :: "string \<Rightarrow> string" where
  "strip s = rev (dropWhile is_space (rev (dropWhile is_space s)))"

text \<open>\<open>s.split(sep)\<close> for a one-character separator.\<close>

fun split_on :: "char \<Rightarrow> string \<Rightarrow> string list" where
  "split_on sep [] = [[]]"
| "split_on sep (c # cs) =
     (if c = sep then [] # split_on sep cs
      else (case split_on sep cs of
              [] \<Rightarrow> [[c]]
            | w # ws \<Rightarrow> (c # w) # ws))"

text \<open>\<open>needle in haystack\<close> on strings.\<close>

fun contains :: "string \<Rightarrow> string \<Rightarrow> bool" where
  "contains [] needle = (needle = [])"
| "contains (c # cs) needle = (prefix needle (c # cs) \<or> contains cs needle)"

text \<open>The value of a string of decimal digits, and of \<open>float("ds.fs")\<close>.\<close>

definition digits_value :: "string \<Rightarrow> nat" where
  "digits_value ds = foldl (\<lambda>a c. 10 * a + ((of_char c :: nat) - 48)) 0 ds"

definition decimal_value :: "string \<times> string \<Rightarrow> real" where
  "decimal_value m =
     (case m of (ds, fs) \<Rightarrow> real (digits_value ds) + real (digits_value fs) / 10 ^ length fs)"

text \<open>
  \<open>re.search(r"(\d+(?:\.\d{1,2})?)", s)\<close>: the leftmost run of digits, with a following
  point and one or two digits when present. The match is returned as the pair of the
  integer digits and the fraction digits.
\<close>

definition search_decimal :: "string \<Rightarrow> (string \<times> string) option" where
  "search_decimal s =
     (let t = dropWhile (\<lambda>c. \<not> is_digit c) s
      in if t = [] then None
         else
           let ds = takeWhile is_digit t;
               rest = dropWhile is_digit t
           in (case rest of
                 c # d # r \<Rightarrow>
                   if c = CHR ''.'' \<and> is_digit d
                   then Some (ds, take 2 (takeWhile is_digit (d # r)))
                   else Some (ds, [])
               | _ \<Rightarrow> Some (ds, [])))"

text \<open>
  The value \<open>json.loads\<close> returns: \<open>JNull\<close> is \<open>None\<close>, a number is an \<open>int\<close> or a \<open>float\<close>,
  an object is a \<open>dict\<close>, kept as the list of its items in insertion order (the keys of a
  \<open>dict\<close> are distinct).
\<close>

datatype json =
    JNull
  | JBool bool
  | JNum real
  | JStr string
  | JArr "json list"
  | JObj "(string \<times> json) list"

fun truthy :: "json \<Rightarrow> bool" where
  "truthy JNull = False"
| "truthy (JBool b) = b"
| "truthy (JNum r) = (r \<noteq> 0)"
| "truthy (JStr s) = (s \<noteq> [])"
| "truthy (JArr xs) = (xs \<noteq> [])"
| "truthy (JObj kvs) = (kvs \<noteq> [])"

definition py_or :: "json \<Rightarrow> json \<Rightarrow> json" where
  "py_or a b = (if truthy a then a else b)"

fun is_str :: "json \<Rightarrow> bool" where
  "is_str (JStr s) = True"
| "is_str _ = False"

text \<open>\<open>d.get(k)\<close> on a dict.\<close>

definition dict_get :: "(string \<times> json) list \<Rightarrow> string \<Rightarrow> json" where
  "dict_get kvs k = (case map_of kvs k of None \<Rightarrow> JNull | Some v \<Rightarrow> v)"

text \<open>
  \<open>d.get(k1, {}).get(k2)\<close>: the default only stands in for an absent key; a value that is
  not a dict has no \<open>get\<close>.
\<close>

definition sub_get :: "(string \<times> json) list \<Rightarrow> string \<Rightarrow> string \<Rightarrow> py_error + json" where
  "sub_get kvs k1 k2 =
     (case map_of kvs k1 of
        None \<Rightarrow> Inr JNull
      | Some (JObj d) \<Rightarrow> Inr (dict_get d k2)
      | Some _ \<Rightarrow> Inl AttributeError)"


section \<open>services/ubereats\_scraper.py\<close>


text \<open>\<open>_extract_price_field(node)\<close>: the loop over the candidate list.\<close>

fun first_candidate :: "json list \<Rightarrow> json" where
  "first_candidate [] = JNull"
| "first_candidate (JNull # cs) = first_candidate cs"
| "first_candidate (JObj d # cs) =
     (let amount = py_or (dict_get d ''amount'') (dict_get d ''price'')
      in if amount \<noteq> JNull then amount else first_candidate cs)"
| "first_candidate (c # cs) = c"

definition extract_price_field :: "(string \<times> json) list \<Rightarrow> py_error + json" where
  "extract_price_field node =
     (case sub_get node ''priceInfo'' ''price'' of
        Inl e \<Rightarrow> Inl e
      | Inr c2 \<Rightarrow>
     (case sub_get node ''priceInfo'' ''unitPrice'' of
        Inl e \<Rightarrow> Inl e
      | Inr c3 \<Rightarrow>
     (case sub_get node ''itemPrice'' ''price'' of
        Inl e \<Rightarrow> Inl e
      | Inr c4 \<Rightarrow>
          Inr (first_candidate
                 [dict_get node ''price'', c2, c3, c4,
                  dict_get node ''priceTag'', dict_get node ''amount'',
                  dict_get node ''price_in_cents'', dict_get node ''priceInCents'']))))"

definition looks_like_item :: "(string \<times> json) list \<Rightarrow> py_error + bool" where
  "looks_like_item node =
     (let name = py_or (py_or (dict_get node ''title'') (dict_get node ''name''))
                   (dict_get node ''displayName'')
      in case extract_price_field node of
           Inl e \<Rightarrow> Inl e
         | Inr price \<Rightarrow> Inr (is_str name \<and> price \<noteq> JNull))"

text \<open>The dict \<open>{"name": .., "price": .., "category": ..}\<close> that the walk yields.\<close>

record candidate =
  cand_name :: json
  cand_price :: json
  cand_category :: json

definition section_types :: "string list" where
  "section_types = [''category'', ''section'', ''menuitemsection'']"

definition section_keys :: "string list" where
  "section_keys = [''category'', ''section'', ''menu_items_section'']"

text \<open>
  \<open>_extract_items(payload)\<close>: the generator \<open>walk(node, current_category)\<close>, consumed whole
  by \<open>list(...)\<close>, so that an exception anywhere in the walk is the result. \<open>walk_list\<close> is
  the loop over a list node, \<open>walk_items\<close> the loop over \<open>node.items()\<close> with the category
  \<open>current_category_local\<close>.
\<close>

fun walk :: "json \<Rightarrow> json \<Rightarrow> py_error + candidate list"
  and walk_list :: "json list \<Rightarrow> json \<Rightarrow> py_error + candidate list"
  and walk_items :: "(string \<times> json) list \<Rightarrow> json \<Rightarrow> py_error + candidate list"
where
  "walk (JObj node) current_category =
     (let name = py_or (py_or (dict_get node ''title'') (dict_get node ''name''))
                   (dict_get node ''displayName'');
          current_category_local =
            (if truthy name \<and> is_str name
             then (let node_type = py_or (dict_get node ''type'') (dict_get node ''__typename'')
                   in if truthy node_type
                         \<and> (case node_type of JStr t \<Rightarrow> lower t \<in> set section_types | _ \<Rightarrow> False)
                      then name else current_category)
             else current_category)
      in case looks_like_item node of
           Inl e \<Rightarrow> Inl e
         | Inr is_item \<Rightarrow>
        (case (if is_item
               then (case extract_price_field node of
                       Inl e \<Rightarrow> Inl e
                     | Inr price \<Rightarrow>
                         Inr [\<lparr> cand_name = py_or name (dict_get node ''shortName''),
                                cand_price = price,
                                cand_category = current_category \<rparr>])
               else Inr []) of
           Inl e \<Rightarrow> Inl e
         | Inr own \<Rightarrow>
        (case walk_items node current_category_local of
           Inl e \<Rightarrow> Inl e
         | Inr below \<Rightarrow> Inr (own @ below))))"
| "walk (JArr xs) current_category = walk_list xs current_category"
| "walk JNull current_category = Inr []"
| "walk (JBool b) current_category = Inr []"
| "walk (JNum r) current_category = Inr []"
| "walk (JStr s) current_category = Inr []"
| "walk_list [] current_category = Inr []"
| "walk_list (x # xs) current_category =
     (case walk x current_category of
        Inl e \<Rightarrow> Inl e
      | Inr first \<Rightarrow>
     (case walk_list xs current_category of
        Inl e \<Rightarrow> Inl e
      | Inr others \<Rightarrow> Inr (first @ others)))"
| "walk_items [] current_category_local = Inr []"
| "walk_items ((key, val) # kvs) current_category_local =
     (let next_category =
            (case val of
               JObj d \<Rightarrow>
                 if lower key \<in> set section_keys
                 then (let title = py_or (dict_get d ''title'') (dict_get d ''name'')
                       in if is_str title then title else current_category_local)
                 else current_category_local
             | _ \<Rightarrow> current_category_local)
      in case walk val next_category of
           Inl e \<Rightarrow> Inl e
         | Inr first \<Rightarrow>
        (case walk_items kvs current_category_local of
           Inl e \<Rightarrow> Inl e
         | Inr others \<Rightarrow> Inr (first @ others)))"

















section \<open>services/gemini\_service.py\<close>

text \<open>
  The built-ins \<open>int\<close> and \<open>float\<close> applied to a value of a decoded reply. Their parsers of
  text are parameters: \<open>None\<close> is \<open>ValueError\<close>. On a number \<open>int\<close> truncates towards zero.
\<close>

record py_builtins =
  int_of_str :: "string \<Rightarrow> int option"
  float_of_str :: "string \<Rightarrow> real option"

fun py_int :: "py_builtins \<Rightarrow> json \<Rightarrow> py_error + int" where
  "py_int B (JNum r) = Inr (if 0 \<le> r then \<lfloor>r\<rfloor> else \<lceil>r\<rceil>)"
| "py_int B (JBool b) = Inr (if b then 1 else 0)"
| "py_int B (JStr s) = (case int_of_str B s of None \<Rightarrow> Inl ValueError | Some n \<Rightarrow> Inr n)"
| "py_int B _ = Inl TypeError"

fun py_float :: "py_builtins \<Rightarrow> json \<Rightarrow> py_error + real" where
  "py_float B (JNum r) = Inr r"
| "py_float B (JBool b) = Inr (if b then 1 else 0)"
| "py_float B (JStr s) = (case float_of_str B s of None \<Rightarrow> Inl ValueError | Some x \<Rightarrow> Inr x)"
| "py_float B _ = Inl TypeError"

text \<open>\<open>d.get(k, 0)\<close>: the default stands in for an absent key only.\<close>

definition dict_get_or_zero :: "(string \<times> json) list \<Rightarrow> string \<Rightarrow> json" where
  "dict_get_or_zero d k = (case map_of d k of None \<Rightarrow> JNum 0 | Some v \<Rightarrow> v)"

text \<open>
  What the external estimator does when asked: the call (or reading its text) raises, or
  \<open>json.loads\<close> of the reply, stripped of its code fence, raises \<open>JSONDecodeError\<close>, or it
  returns a value.
\<close>

datatype estimator_outcome = CallRaises | ReplyNotJson | ReplyJson json

datatype effect = RateLimiterAcquire | GenerateContent

record deal_scores =
  deal_value_score :: real
  deal_satiety_score :: real
  deal_price_per_calorie :: real
  deal_calories :: int
  deal_protein_grams :: real

text \<open>The dict every path of \<open>score_deal\<close> builds from the scorer's result.\<close>

definition scored :: "int \<Rightarrow> real \<Rightarrow> real \<Rightarrow> py_error + deal_scores" where
  "scored calories protein price =
     (case calculate_final_value_score (Some calories) (Some protein) (Some price) of
        Inl e \<Rightarrow> Inl e
      | Inr s \<Rightarrow>
          Inr \<lparr> deal_value_score = value_score s,
                deal_satiety_score = satiety_score s,
                deal_price_per_calorie = price_per_calorie s,
                deal_calories = calories,
                deal_protein_grams = protein \<rparr>)"

text \<open>The body of the \<open>try\<close> block, after the rate limiter.\<close>

definition estimate_nutrition ::
    "py_builtins \<Rightarrow> real \<Rightarrow> estimator_outcome \<Rightarrow> py_error + deal_scores" where
  "estimate_nutrition B price outcome =
     (case outcome of
        CallRaises \<Rightarrow> Inl EstimatorError
      | ReplyNotJson \<Rightarrow> Inl JSONDecodeError
      | ReplyJson nutrition_data \<Rightarrow>
          (case nutrition_data of
             JObj d \<Rightarrow>
               (case py_int B (dict_get_or_zero d ''calories'') of
                  Inl e \<Rightarrow> Inl e
                | Inr calories \<Rightarrow>
               (case py_float B (dict_get_or_zero d ''protein'') of
                  Inl e \<Rightarrow> Inl e
                | Inr protein \<Rightarrow>
                    if calories \<le> 0 then scored 600 20 price
                    else scored calories protein price))
           | _ \<Rightarrow> Inl AttributeError))"

text \<open>
  The path of \<open>score_deal\<close> that asks the estimator, with the effects it performs. Both
  handlers, of \<open>JSONDecodeError\<close> and of any other exception, score the fixed defaults.
\<close>

definition estimate_with_fallback ::
    "py_builtins \<Rightarrow> real \<Rightarrow> estimator_outcome \<Rightarrow> effect list \<times> (py_error + deal_scores)" where
  "estimate_with_fallback B price outcome =
     ([RateLimiterAcquire, GenerateContent],
      (case estimate_nutrition B price outcome of
         Inr result \<Rightarrow> Inr result
       | Inl JSONDecodeError \<Rightarrow> scored 600 20 price
       | Inl e \<Rightarrow> scored 600 20 price))"

text \<open>
  \<open>score_deal\<close>: the effects performed and the result. The test
  \<open>calories and calories > 0\<close> fails for \<open>None\<close>, for \<open>0\<close> and for a negative number.
\<close>

definition score_deal ::
    "py_builtins \<Rightarrow> real \<Rightarrow> int option \<Rightarrow> real option \<Rightarrow> estimator_outcome
       \<Rightarrow> effect list \<times> (py_error + deal_scores)" where
  "score_deal B price calories protein_grams outcome =
     (case calories of
        None \<Rightarrow> estimate_with_fallback B price outcome
      | Some c \<Rightarrow>
          if c \<noteq> 0 \<and> c > 0
          then ([], scored c (case protein_grams of None \<Rightarrow> 0 | Some p \<Rightarrow> p) price)
          else estimate_with_fallback B price outcome)"

text \<open>Parsers that accept plain decimal digits only, to run the model on examples.\<close>

definition sample_builtins :: py_builtins where
  "sample_builtins =
     \<lparr> int_of_str = (\<lambda>s. if s \<noteq> [] \<and> list_all is_digit s then Some (int (digits_value s))
                          else None),
       float_of_str = (\<lambda>s. if s \<noteq> [] \<and> list_all is_digit s then Some (real (digits_value s))
                            else None) \<rparr>"


section \<open>services/ubereats\_store\_search.py\<close>

text \<open>
  The \<open>address\<close> of a store is whatever value the source assigns: \<open>None\<close>, a string, or
  the \<open>address\<close> entry of a decoded object, so it is a \<open>json\<close>.
\<close>

record UberEatsStore =
  store_name :: string
  store_url :: string
  store_id :: string
  address :: json
  distance :: "string option"
  latitude :: "real option"
  longitude :: "real option"

text \<open>
  Library functions the module calls, as parameters: \<open>html.unescape\<close>, \<open>str.title\<close>, the
  location token of \<open>_build_pl_parameter\<close> (JSON, base64 and URL quoting), the URL
  rewriting of \<open>_encode_store_url\<close> (\<open>urlparse\<close>, \<open>urlencode\<close>), \<open>str\<close> of a value that is not a
  string, and the text of a float in an f-string.
\<close>

record store_library =
  html_unescape :: "string \<Rightarrow> string"
  str_title :: "string \<Rightarrow> string"
  build_pl_parameter :: "string \<Rightarrow> real \<Rightarrow> real \<Rightarrow> string"
  encode_store_url :: "string \<Rightarrow> string \<Rightarrow> string"
  repr_of :: "json \<Rightarrow> string"
  format_float :: "real \<Rightarrow> string"

definition base_url :: string where
  "base_url = ''https://www.ubereats.com''"

fun py_str :: "store_library \<Rightarrow> json \<Rightarrow> string" where
  "py_str L (JStr s) = s"
| "py_str L v = repr_of L v"

text \<open>\<open>s.split(sep)[0]\<close>.\<close>

definition first_part :: "char \<Rightarrow> string \<Rightarrow> string" where
  "first_part sep s = (case split_on sep s of [] \<Rightarrow> [] | p # ps \<Rightarrow> p)"

text \<open>
  \<open>_geocode_location\<close>. The reply is the outcome of the request and of \<open>response.json()\<close>.
  Every exception inside the \<open>try\<close> gives \<open>(None, None)\<close>.
\<close>

definition geocode_try ::
    "py_builtins \<Rightarrow> py_error + json \<Rightarrow> py_error + (real option \<times> real option)" where
  "geocode_try B reply =
     (case reply of
        Inl e \<Rightarrow> Inl e
      | Inr data \<Rightarrow>
          if \<not> truthy data then Inr (None, None)
          else (case data of
                  JArr (first # others) \<Rightarrow>
                    (case first of
                       JObj entry \<Rightarrow>
                         (case map_of entry ''lat'' of
                            None \<Rightarrow> Inl KeyError
                          | Some lat_value \<Rightarrow>
                         (case py_float B lat_value of
                            Inl e \<Rightarrow> Inl e
                          | Inr lat \<Rightarrow>
                         (case map_of entry ''lon'' of
                            None \<Rightarrow> Inl KeyError
                          | Some lon_value \<Rightarrow>
                         (case py_float B lon_value of
                            Inl e \<Rightarrow> Inl e
                          | Inr lon \<Rightarrow> Inr (Some lat, Some lon)))))
                     | _ \<Rightarrow> Inl TypeError)
                | JObj entries \<Rightarrow> Inl KeyError
                | _ \<Rightarrow> Inl TypeError))"

definition geocode_location ::
    "py_builtins \<Rightarrow> py_error + json \<Rightarrow> real option \<times> real option" where
  "geocode_location B reply =
     (case geocode_try B reply of Inl e \<Rightarrow> (None, None) | Inr coords \<Rightarrow> coords)"

text \<open>
  A search-result page: the matches \<open>findall\<close> returns for the anchor pattern, as pairs of
  its two groups, and, in pattern order, the matches of the three state patterns, each
  decoded by \<open>json.loads\<close> (\<open>None\<close> where it raised \<open>JSONDecodeError\<close>).
\<close>

record search_page =
  anchor_matches :: "(string \<times> string) list"
  state_payloads :: "json option list"

text \<open>Strategy 1 of \<open>_parse_search_results\<close>: the loop over the anchor matches.\<close>

fun anchor_loop ::
    "store_library \<Rightarrow> string \<Rightarrow> string \<Rightarrow> real \<Rightarrow> real \<Rightarrow> (string \<times> string) list
       \<Rightarrow> UberEatsStore list" where
  "anchor_loop L restaurant_name_lower pl_param lat lon [] = []"
| "anchor_loop L restaurant_name_lower pl_param lat lon (match # matches) =
     (let store_path = html_unescape L (fst match);
          store_slug_with_id = html_unescape L (snd match);
          others = anchor_loop L restaurant_name_lower pl_param lat lon matches
      in if contains (lower store_slug_with_id)
              (map (\<lambda>c. if c = CHR '' '' then CHR ''-'' else c) restaurant_name_lower)
            \<or> contains (lower store_slug_with_id)
                 (filter (\<lambda>c. c \<noteq> CHR 0x27) restaurant_name_lower)
         then (case split_on CHR ''/'' store_slug_with_id of
                 store_name_slug # id_part # further \<Rightarrow>
                   \<lparr> store_name =
                       str_title L
                         (map (\<lambda>c. if c = CHR ''-'' then CHR '' '' else c) store_name_slug),
                     store_url =
                       encode_store_url L (first_part CHR ''?'' store_path) pl_param,
                     store_id = first_part CHR ''?'' id_part,
                     address = JNull,
                     distance = None,
                     latitude = Some lat,
                     longitude = Some lon \<rparr> # others
               | _ \<Rightarrow> others)
         else others)"

text \<open>\<open>_looks_like_store\<close> and \<open>_create_store_from_object\<close>, on a dict.\<close>

definition has_key :: "(string \<times> json) list \<Rightarrow> string \<Rightarrow> bool" where
  "has_key obj k = (map_of obj k \<noteq> None)"

definition store_name_of :: "store_library \<Rightarrow> (string \<times> json) list \<Rightarrow> string" where
  "store_name_of L obj =
     py_str L (py_or (py_or (py_or (py_or (dict_get obj ''title'') (dict_get obj ''name''))
                               (dict_get obj ''storeName''))
                        (dict_get obj ''store_name''))
                 (JStr []))"

definition looks_like_store ::
    "store_library \<Rightarrow> (string \<times> json) list \<Rightarrow> string \<Rightarrow> bool" where
  "looks_like_store L obj restaurant_name_lower =
     (let has_name = list_ex (has_key obj) [''title'', ''name'', ''storeName'', ''store_name''];
          has_uuid = list_ex (has_key obj) [''uuid'', ''storeUuid'', ''store_uuid'', ''slug'']
      in if has_name \<and> has_uuid
         then contains (lower (store_name_of L obj)) restaurant_name_lower
         else False)"

definition create_store_from_object ::
    "store_library \<Rightarrow> (string \<times> json) list \<Rightarrow> string \<Rightarrow> real \<Rightarrow> real
       \<Rightarrow> UberEatsStore option" where
  "create_store_from_object L obj loc lat lon =
     (let nm = store_name_of L obj;
          sid = py_str L
                  (py_or (py_or (py_or (py_or (dict_get obj ''uuid'') (dict_get obj ''storeUuid''))
                                   (dict_get obj ''store_uuid''))
                            (dict_get obj ''slug''))
                     (JStr []))
      in if nm = [] \<or> sid = [] then None
         else Some
           \<lparr> store_name = nm,
             store_url =
               encode_store_url L (base_url @ ''/store/'' @ sid) (build_pl_parameter L loc lat lon),
             store_id = sid,
             address =
               (case dict_get obj ''location'' of
                  JObj d \<Rightarrow> dict_get d ''address''
                | _ \<Rightarrow> JNull),
             distance = None,
             latitude =
               (case dict_get obj ''latitude'' of
                  JNum r \<Rightarrow> Some r
                | JBool b \<Rightarrow> Some (if b then 1 else 0)
                | _ \<Rightarrow> Some lat),
             longitude =
               (case dict_get obj ''longitude'' of
                  JNum r \<Rightarrow> Some r
                | JBool b \<Rightarrow> Some (if b then 1 else 0)
                | _ \<Rightarrow> Some lon) \<rparr>)"

text \<open>
  \<open>_extract_stores_from_data\<close>: \<open>search_recursive\<close> appends to \<open>stores\<close> in the order of its
  depth-first walk; \<open>search_list\<close> is the loop over a list, \<open>search_values\<close> the loop over
  \<open>obj.items()\<close>.
\<close>

fun search_recursive ::
      "store_library \<Rightarrow> string \<Rightarrow> string \<Rightarrow> real \<Rightarrow> real \<Rightarrow> json \<Rightarrow> UberEatsStore list"
  and search_list ::
      "store_library \<Rightarrow> string \<Rightarrow> string \<Rightarrow> real \<Rightarrow> real \<Rightarrow> json list \<Rightarrow> UberEatsStore list"
  and search_values ::
      "store_library \<Rightarrow> string \<Rightarrow> string \<Rightarrow> real \<Rightarrow> real \<Rightarrow> (string \<times> json) list
         \<Rightarrow> UberEatsStore list"
where
  "search_recursive L rn_lower loc lat lon (JObj obj) =
     (if looks_like_store L obj rn_lower
      then (case create_store_from_object L obj loc lat lon of
              None \<Rightarrow> []
            | Some store \<Rightarrow> [store])
      else [])
     @ search_values L rn_lower loc lat lon obj"
| "search_recursive L rn_lower loc lat lon (JArr xs) = search_list L rn_lower loc lat lon xs"
| "search_recursive L rn_lower loc lat lon JNull = []"
| "search_recursive L rn_lower loc lat lon (JBool b) = []"
| "search_recursive L rn_lower loc lat lon (JNum r) = []"
| "search_recursive L rn_lower loc lat lon (JStr s) = []"
| "search_list L rn_lower loc lat lon [] = []"
| "search_list L rn_lower loc lat lon (x # xs) =
     search_recursive L rn_lower loc lat lon x @ search_list L rn_lower loc lat lon xs"
| "search_values L rn_lower loc lat lon [] = []"
| "search_values L rn_lower loc lat lon (kv # kvs) =
     search_recursive L rn_lower loc lat lon (snd kv) @ search_values L rn_lower loc lat lon kvs"

definition extract_stores_from_data ::
    "store_library \<Rightarrow> json \<Rightarrow> string \<Rightarrow> string \<Rightarrow> real \<Rightarrow> real \<Rightarrow> UberEatsStore list" where
  "extract_stores_from_data L data restaurant_name loc lat lon =
     search_recursive L (lower restaurant_name) loc lat lon data"

text \<open>Strategy 2 of \<open>_parse_search_results\<close>: the loop over the decoded state payloads.\<close>

fun state_loop ::
    "store_library \<Rightarrow> string \<Rightarrow> string \<Rightarrow> real \<Rightarrow> real \<Rightarrow> json option list
       \<Rightarrow> UberEatsStore list" where
  "state_loop L restaurant_name loc lat lon [] = []"
| "state_loop L restaurant_name loc lat lon (None # payloads) =
     state_loop L restaurant_name loc lat lon payloads"
| "state_loop L restaurant_name loc lat lon (Some data # payloads) =
     extract_stores_from_data L data restaurant_name loc lat lon
     @ state_loop L restaurant_name loc lat lon payloads"

text \<open>The deduplication loop, with the set \<open>seen\<close> and the list \<open>unique_stores\<close>.\<close>

fun unique_loop ::
    "UberEatsStore list \<Rightarrow> string set \<Rightarrow> UberEatsStore list \<Rightarrow> UberEatsStore list" where
  "unique_loop [] seen unique_stores = unique_stores"
| "unique_loop (store # stores) seen unique_stores =
     (if store_id store \<notin> seen
      then unique_loop stores (insert (store_id store) seen) (unique_stores @ [store])
      else unique_loop stores seen unique_stores)"

text \<open>
  The stores \<open>_parse_search_results\<close> has collected before it deduplicates: those of the
  anchor strategy, or those of the state strategy when there are none.
\<close>

definition anchor_stores ::
    "store_library \<Rightarrow> search_page \<Rightarrow> string \<Rightarrow> string \<Rightarrow> real \<Rightarrow> real \<Rightarrow> UberEatsStore list" where
  "anchor_stores L page restaurant_name loc lat lon =
     anchor_loop L (lower restaurant_name) (build_pl_parameter L loc lat lon) lat lon
       (anchor_matches page)"

definition state_stores ::
    "store_library \<Rightarrow> search_page \<Rightarrow> string \<Rightarrow> string \<Rightarrow> real \<Rightarrow> real \<Rightarrow> UberEatsStore list" where
  "state_stores L page restaurant_name loc lat lon =
     state_loop L restaurant_name loc lat lon (state_payloads page)"

definition collected_stores ::
    "store_library \<Rightarrow> search_page \<Rightarrow> string \<Rightarrow> string \<Rightarrow> real \<Rightarrow> real \<Rightarrow> UberEatsStore list" where
  "collected_stores L page restaurant_name loc lat lon =
     (let stores = anchor_stores L page restaurant_name loc lat lon
      in if stores = [] then state_stores L page restaurant_name loc lat lon else stores)"

definition parse_search_results ::
    "store_library \<Rightarrow> search_page \<Rightarrow> string \<Rightarrow> string \<Rightarrow> real \<Rightarrow> real \<Rightarrow> UberEatsStore list" where
  "parse_search_results L page restaurant_name loc lat lon =
     take 10 (unique_loop (collected_stores L page restaurant_name loc lat lon) {} [])"

text \<open>\<open>_try_direct_store_url\<close>.\<close>

definition slug_map :: "(string \<times> string) list" where
  "slug_map =
     [(''mcdonald'' @ [CHR 0x27] @ ''s'', ''mcdonalds''),
      (''mcdonalds'', ''mcdonalds''),
      (''burger king'', ''burger-king''),
      (''wendy'' @ [CHR 0x27] @ ''s'', ''wendys''),
      (''wendys'', ''wendys''),
      (''taco bell'', ''taco-bell''),
      (''chipotle'', ''chipotle-mexican-grill''),
      (''subway'', ''subway''),
      (''kfc'', ''kfc''),
      (''popeyes'', ''popeyes''),
      (''chick-fil-a'', ''chick-fil-a''),
      (''five guys'', ''five-guys''),
      (''sonic'', ''sonic-drive-in''),
      (''arby'' @ [CHR 0x27] @ ''s'', ''arbys''),
      (''arbys'', ''arbys''),
      (''panda express'', ''panda-express''),
      (''panera'', ''panera-bread''),
      (''panera bread'', ''panera-bread'')]"

definition try_direct_store_url ::
    "store_library \<Rightarrow> string \<Rightarrow> string \<Rightarrow> real \<Rightarrow> real \<Rightarrow> UberEatsStore list" where
  "try_direct_store_url L restaurant_name loc lat lon =
     (let normalized_name = strip (lower restaurant_name)
      in case map_of slug_map normalized_name of
           None \<Rightarrow> []
         | Some base_slug \<Rightarrow>
             if base_slug = [] then []
             else [\<lparr> store_name = str_title L restaurant_name,
                      store_url = base_url @ ''/store/'' @ base_slug
                        @ ''?diningMode=DELIVERY&pl='' @ build_pl_parameter L loc lat lon,
                      store_id = base_slug,
                      address = JStr (''Near '' @ format_float L lat @ '', ''
                                        @ format_float L lon),
                      distance = None,
                      latitude = Some lat,
                      longitude = Some lon \<rparr>])"

text \<open>
  \<open>_search_uber_eats\<close>. The search request either raises, which the \<open>except\<close> turns into the
  stores found so far (none), or returns a page.
\<close>

definition search_uber_eats ::
    "store_library \<Rightarrow> py_error + search_page \<Rightarrow> string \<Rightarrow> string \<Rightarrow> real \<Rightarrow> real
       \<Rightarrow> UberEatsStore list" where
  "search_uber_eats L response restaurant_name loc lat lon =
     (case response of
        Inl e \<Rightarrow> []
      | Inr page \<Rightarrow>
          (let stores = parse_search_results L page restaurant_name loc lat lon
           in if stores = []
              then stores @ try_direct_store_url L restaurant_name loc lat lon
              else stores))"

text \<open>
  \<open>search_stores\<close>. The coordinates are geocoded unless the caller passed both; the test
  \<open>not lat or not lon\<close> holds for \<open>None\<close> and for \<open>0.0\<close>.
\<close>

definition resolve_coordinates ::
    "py_builtins \<Rightarrow> py_error + json \<Rightarrow> real option \<Rightarrow> real option \<Rightarrow> real option \<times> real option"
    where
  "resolve_coordinates B geocode_reply lat lon =
     (if lat = None \<or> lon = None then geocode_location B geocode_reply else (lat, lon))"

definition falsy_coordinate :: "real option \<Rightarrow> bool" where
  "falsy_coordinate v = (case v of None \<Rightarrow> True | Some x \<Rightarrow> x = 0)"

definition search_stores ::
    "py_builtins \<Rightarrow> store_library \<Rightarrow> py_error + json \<Rightarrow> py_error + search_page
       \<Rightarrow> string \<Rightarrow> string \<Rightarrow> real option \<Rightarrow> real option \<Rightarrow> UberEatsStore list" where
  "search_stores B L geocode_reply response restaurant_name loc lat lon =
     (case resolve_coordinates B geocode_reply lat lon of
        (lat', lon') \<Rightarrow>
          if falsy_coordinate lat' \<or> falsy_coordinate lon' then []
          else (case (lat', lon') of
                  (Some la, Some lo) \<Rightarrow> search_uber_eats L response restaurant_name loc la lo
                | _ \<Rightarrow> []))"

text \<open>A library whose functions leave the text alone, to run the model on examples.\<close>

definition sample_library :: store_library where
  "sample_library =
     \<lparr> html_unescape = (\<lambda>s. s),
       str_title = (\<lambda>s. s),
       build_pl_parameter = (\<lambda>loc lat lon. ''pl''),
       encode_store_url = (\<lambda>path pl. path),
       repr_of = (\<lambda>v. ''value''),
       format_float = (\<lambda>x. ''0.0'') \<rparr>"

text \<open>
  A result page with fifteen anchors of one chain, each with its own store id, and a
  geocoder reply that places the location on the equator.
\<close>

definition sample_store_ids :: "string list" where
  "sample_store_ids =
     [''a'', ''b'', ''c'', ''d'', ''e'', ''f'', ''g'', ''h'', ''i'', ''j'',
      ''k'', ''l'', ''m'', ''n'', ''o'']"

definition sample_search_page :: search_page where
  "sample_search_page =
     \<lparr> anchor_matches = map (\<lambda>i. (''/store/kfc/'' @ i, ''kfc/'' @ i)) sample_store_ids,
       state_payloads = [] \<rparr>"

definition sample_store :: "string \<Rightarrow> UberEatsStore" where
  "sample_store i =
     \<lparr> store_name = ''kfc'', store_url = ''/store/kfc/'' @ i, store_id = i,
       address = JNull, distance = None, latitude = Some 40, longitude = Some 75 \<rparr>"

definition sample_geocode_reply :: json where
  "sample_geocode_reply = JArr [JObj [(''lat'', JStr ''0''), (''lon'', JStr ''78'')]]"


section \<open>services/menu\_scraper.py\<close>

record ScrapedMenuItem =
  scraped_restaurant :: string
  scraped_name :: string
  scraped_price :: "real option"
  scraped_calories :: "int option"
  scraped_protein_grams :: "real option"
  scraped_category :: "string option"
  source_url :: "string option"
  raw :: "json option"

definition TARGETS :: "(string \<times> string \<times> string) list" where
  "TARGETS =
     [(''mcdonalds'', ''McDonald'' @ [CHR 0x27] @ ''s'',
         ''https://www.mcdonalds.com/us/en-us/full-menu.html''),
      (''taco-bell'', ''Taco Bell'', ''https://www.tacobell.com/food''),
      (''wendys'', ''Wendy'' @ [CHR 0x27] @ ''s'', ''https://www.wendys.com/menu''),
      (''burger-king'', ''Burger King'', ''https://www.bk.com/menu''),
      (''chick-fil-a'', ''Chick-fil-A'', ''https://www.chick-fil-a.com/menu''),
      (''subway'', ''Subway'', ''https://www.subway.com/en-us/menunutrition/menu'')]"

subsection \<open>Parsing of prices, calories and protein\<close>

text \<open>\<open>MenuScraper._parse_price(value, currency)\<close>; the currency is not used.\<close>

fun menu_parse_price :: "json \<Rightarrow> real option" where
  "menu_parse_price JNull = None"
| "menu_parse_price (JBool b) = Some (py_round 2 (if b then 1 else 0))"
| "menu_parse_price (JNum r) = Some (py_round 2 r)"
| "menu_parse_price (JStr s) =
     (case search_decimal (filter (\<lambda>c. c \<noteq> CHR '','') s) of
        Some m \<Rightarrow> Some (py_round 2 (decimal_value m))
      | None \<Rightarrow> None)"
| "menu_parse_price (JArr xs) = None"
| "menu_parse_price (JObj kvs) = None"

text \<open>\<open>re.search(r"(\d{2,4})", s)\<close>: the leftmost two to four digits in a row.\<close>

fun search_digits_2_4 :: "string \<Rightarrow> string option" where
  "search_digits_2_4 (c # d # r) =
     (if is_digit c \<and> is_digit d then Some (take 4 (takeWhile is_digit (c # d # r)))
      else search_digits_2_4 (d # r))"
| "search_digits_2_4 _ = None"

fun parse_calories :: "json \<Rightarrow> int option" where
  "parse_calories JNull = None"
| "parse_calories (JBool b) = Some (if b then 1 else 0)"
| "parse_calories (JNum r) = Some (if 0 \<le> r then \<lfloor>r\<rfloor> else \<lceil>r\<rceil>)"
| "parse_calories (JStr s) =
     (case search_digits_2_4 (filter (\<lambda>c. c \<noteq> CHR '','') s) of
        Some ds \<Rightarrow> Some (int (digits_value ds))
      | None \<Rightarrow> None)"
| "parse_calories (JArr xs) = None"
| "parse_calories (JObj kvs) = None"

text \<open>\<open>re.search(r"(\d+(?:\.\d+)?)", s)\<close>: as \<open>search_decimal\<close>, with the whole fraction.\<close>

definition search_number :: "string \<Rightarrow> (string \<times> string) option" where
  "search_number s =
     (let t = dropWhile (\<lambda>c. \<not> is_digit c) s
      in if t = [] then None
         else
           let ds = takeWhile is_digit t;
               rest = dropWhile is_digit t
           in (case rest of
                 c # d # r \<Rightarrow>
                   if c = CHR ''.'' \<and> is_digit d
                   then Some (ds, takeWhile is_digit (d # r))
                   else Some (ds, [])
               | _ \<Rightarrow> Some (ds, [])))"

fun parse_protein :: "json \<Rightarrow> real option" where
  "parse_protein JNull = None"
| "parse_protein (JBool b) = Some (if b then 1 else 0)"
| "parse_protein (JNum r) = Some r"
| "parse_protein (JStr s) =
     (case search_number s of
        Some m \<Rightarrow> Some (decimal_value m)
      | None \<Rightarrow> None)"
| "parse_protein (JArr xs) = None"
| "parse_protein (JObj kvs) = None"

subsection \<open>Structured data\<close>

text \<open>
  \<open>a or d.get(k1, {}).get(k2)\<close>: the right operand is evaluated, and may raise, only when
  the left one is falsy.
\<close>

definition or_sub_get ::
    "json \<Rightarrow> (string \<times> json) list \<Rightarrow> string \<Rightarrow> string \<Rightarrow> py_error + json" where
  "or_sub_get a d k1 k2 = (if truthy a then Inr a else sub_get d k1 k2)"

text \<open>
  \<open>_extract_price(entry)\<close>. \<open>dict_offer_price\<close> is the branch of an \<open>offers\<close> dict,
  \<open>offer_price offer\<close> the call \<open>_extract_price({"offers": offer})\<close> made for each element of
  an \<open>offers\<close> list, and \<open>entry_price\<close> the last two lines.
\<close>

definition dict_offer_price :: "(string \<times> json) list \<Rightarrow> py_error + real option" where
  "dict_offer_price offers =
     (case or_sub_get (dict_get offers ''price'') offers ''priceSpecification'' ''price'' of
        Inl e \<Rightarrow> Inl e
      | Inr price \<Rightarrow>
     (case or_sub_get (dict_get offers ''priceCurrency'') offers ''priceSpecification''
             ''priceCurrency'' of
        Inl e \<Rightarrow> Inl e
      | Inr currency \<Rightarrow> Inr (menu_parse_price price)))"

fun offer_price :: "json \<Rightarrow> py_error + real option"
  and offers_loop :: "json list \<Rightarrow> py_error + real option"
where
  "offer_price (JObj offers) = dict_offer_price offers"
| "offer_price (JArr offers) = offers_loop offers"
| "offer_price JNull = Inr None"
| "offer_price (JBool b) = Inr None"
| "offer_price (JNum r) = Inr None"
| "offer_price (JStr s) = Inr None"
| "offers_loop [] = Inr None"
| "offers_loop (offer # offers) =
     (case offer_price offer of
        Inl e \<Rightarrow> Inl e
      | Inr (Some price) \<Rightarrow> Inr (Some price)
      | Inr None \<Rightarrow> offers_loop offers)"

definition entry_price :: "(string \<times> json) list \<Rightarrow> py_error + real option" where
  "entry_price entry =
     (case or_sub_get (dict_get entry ''price'') entry ''priceSpecification'' ''price'' of
        Inl e \<Rightarrow> Inl e
      | Inr price \<Rightarrow> Inr (menu_parse_price price))"

definition extract_price :: "(string \<times> json) list \<Rightarrow> py_error + real option" where
  "extract_price entry =
     (case dict_get entry ''offers'' of
        JObj offers \<Rightarrow> dict_offer_price offers
      | JArr offers \<Rightarrow>
          (case offers_loop offers of
             Inl e \<Rightarrow> Inl e
           | Inr (Some price) \<Rightarrow> Inr (Some price)
           | Inr None \<Rightarrow> entry_price entry)
      | _ \<Rightarrow> entry_price entry)"

definition extract_nutrition :: "(string \<times> json) list \<Rightarrow> int option \<times> real option" where
  "extract_nutrition entry =
     (case dict_get entry ''nutrition'' of
        JObj nutrition \<Rightarrow>
          (let calories = py_or (dict_get nutrition ''calories'')
                            (dict_get nutrition ''calorieContent'');
               protein = py_or (py_or (dict_get nutrition ''proteinContent'')
                                  (dict_get nutrition ''protein''))
                           (dict_get nutrition ''proteinContentValue'')
           in (parse_calories calories, parse_protein protein))
      | _ \<Rightarrow> (None, None))"

text \<open>The dict \<open>_coerce_menu_item\<close> returns.\<close>

record coerced_item =
  coerced_name :: string
  coerced_price :: "real option"
  coerced_calories :: "int option"
  coerced_protein :: "real option"
  coerced_category :: "string option"

definition entry_types :: "(string \<times> json) list \<Rightarrow> string list" where
  "entry_types entry =
     (case py_or (dict_get entry ''@type'') (dict_get entry ''type'') of
        JArr ts \<Rightarrow> concat (map (\<lambda>t. case t of JStr s \<Rightarrow> [lower s] | _ \<Rightarrow> []) ts)
      | JStr s \<Rightarrow> [lower s]
      | _ \<Rightarrow> [])"

definition coerce_fields :: "(string \<times> json) list \<Rightarrow> py_error + coerced_item option" where
  "coerce_fields entry =
     (case dict_get entry ''name'' of
        JStr nm \<Rightarrow>
          if nm = [] then Inr None
          else (case extract_price entry of
                  Inl e \<Rightarrow> Inl e
                | Inr pr \<Rightarrow>
                    Inr (Some
                      \<lparr> coerced_name = strip nm,
                        coerced_price = pr,
                        coerced_calories = fst (extract_nutrition entry),
                        coerced_protein = snd (extract_nutrition entry),
                        coerced_category =
                          (case dict_get entry ''category'' of
                             JStr c \<Rightarrow> Some (strip c)
                           | _ \<Rightarrow> None) \<rparr>))
      | _ \<Rightarrow> Inr None)"

text \<open>
  \<open>_coerce_menu_item(entry)\<close> on a dict. \<open>coerce_item_of\<close> looks the key \<open>"item"\<close> up and
  recurses into a dict found there.
\<close>

fun coerce_menu_item :: "(string \<times> json) list \<Rightarrow> py_error + coerced_item option"
  and coerce_item_of ::
    "(string \<times> json) list \<Rightarrow> py_error + coerced_item option"
where
  "coerce_menu_item [] = Inr None"
| "coerce_menu_item (kv # kvs) =
     (if ''menuitem'' \<in> set (entry_types (kv # kvs)) \<or> ''listitem'' \<in> set (entry_types (kv # kvs))
      then coerce_fields (kv # kvs)
      else coerce_item_of (kv # kvs))"
| "coerce_item_of [] = Inr None"
| "coerce_item_of (kv # kvs) =
     (if fst kv = ''item''
      then (case snd kv of JObj inner \<Rightarrow> coerce_menu_item inner | _ \<Rightarrow> Inr None)
      else coerce_item_of kvs)"

text \<open>
  \<open>_flatten_ldjson(data)\<close>: the dicts it yields, in order. \<open>flatten_key k\<close> looks the key
  \<open>k\<close> up and flattens its value.
\<close>

fun flatten_ldjson :: "json \<Rightarrow> (string \<times> json) list list"
  and flatten_list :: "json list \<Rightarrow> (string \<times> json) list list"
  and flatten_key :: "string \<Rightarrow> (string \<times> json) list \<Rightarrow> (string \<times> json) list list"
where
  "flatten_ldjson (JObj data) =
     data # flatten_key ''hasMenu'' data @ flatten_key ''hasMenuItem'' data
       @ flatten_key ''hasMenuSection'' data @ flatten_key ''itemListElement'' data"
| "flatten_ldjson (JArr entries) = flatten_list entries"
| "flatten_ldjson JNull = []"
| "flatten_ldjson (JBool b) = []"
| "flatten_ldjson (JNum r) = []"
| "flatten_ldjson (JStr s) = []"
| "flatten_list [] = []"
| "flatten_list (entry # entries) = flatten_ldjson entry @ flatten_list entries"
| "flatten_key k [] = []"
| "flatten_key k (kv # kvs) =
     (if fst kv = k then flatten_ldjson (snd kv) else flatten_key k kvs)"

text \<open>
  \<open>_parse_structured_data\<close>: the loop over the entries of one block and the loop over the
  blocks. A block is \<open>None\<close> when its text is empty or \<open>json.loads\<close> raised
  \<open>JSONDecodeError\<close>.
\<close>

fun entries_loop ::
    "string \<Rightarrow> string \<Rightarrow> (string \<times> json) list list \<Rightarrow> py_error + ScrapedMenuItem list" where
  "entries_loop restaurant url [] = Inr []"
| "entries_loop restaurant url (entry # entries) =
     (case coerce_menu_item entry of
        Inl e \<Rightarrow> Inl e
      | Inr coerced \<Rightarrow>
     (case entries_loop restaurant url entries of
        Inl e \<Rightarrow> Inl e
      | Inr others \<Rightarrow>
          (case coerced of
             None \<Rightarrow> Inr others
           | Some menu_item \<Rightarrow>
               Inr (\<lparr> scraped_restaurant = restaurant,
                       scraped_name = coerced_name menu_item,
                       scraped_price = coerced_price menu_item,
                       scraped_calories = coerced_calories menu_item,
                       scraped_protein_grams = coerced_protein menu_item,
                       scraped_category = coerced_category menu_item,
                       source_url = Some url,
                       raw = Some (JObj entry) \<rparr> # others))))"

fun scripts_loop ::
    "string \<Rightarrow> string \<Rightarrow> json option list \<Rightarrow> py_error + ScrapedMenuItem list" where
  "scripts_loop restaurant url [] = Inr []"
| "scripts_loop restaurant url (None # scripts) = scripts_loop restaurant url scripts"
| "scripts_loop restaurant url (Some data # scripts) =
     (case entries_loop restaurant url (flatten_ldjson data) of
        Inl e \<Rightarrow> Inl e
      | Inr found \<Rightarrow>
     (case scripts_loop restaurant url scripts of
        Inl e \<Rightarrow> Inl e
      | Inr others \<Rightarrow> Inr (found @ others)))"

subsection \<open>Heuristics\<close>

text \<open>
  What the parsed document offers to the scraper: the decoded \<open>application/ld+json\<close>
  blocks, the elements \<open>soup.select\<close> returns for a selector, and \<open>soup.get_text("\n")\<close>.
  Of an element: its \<open>data-name\<close> and \<open>aria-label\<close> attributes, the stripped text of the
  heading \<open>element.find\<close> returns (\<open>None\<close> when it finds none), and
  \<open>element.get_text(" ", strip=True)\<close>.
\<close>

record element =
  data_name :: "string option"
  aria_label :: "string option"
  headline :: "string option"
  element_text :: string

record soup =
  ld_json_scripts :: "json option list"
  select :: "string \<Rightarrow> element list"
  page_text :: string

text \<open>\<open>text.split()\<close>: the words between runs of white space; \<open>cur\<close> is the word being read.\<close>

fun split_words :: "string \<Rightarrow> string \<Rightarrow> string list" where
  "split_words cur [] = (if cur = [] then [] else [cur])"
| "split_words cur (c # cs) =
     (if is_space c
      then (if cur = [] then split_words [] cs else cur # split_words [] cs)
      else split_words (cur @ [c]) cs)"

definition looks_like_menu_item :: "string \<Rightarrow> bool" where
  "looks_like_menu_item text =
     (if text = [] then False
      else
        let ws = split_words [] text
        in if length ws < 2 \<or> length ws > 8 then False
           else if lower text \<in> {''menu'', ''learn more'', ''order now''} then False
           else True)"

text \<open>
  \<open>_parse_price_from_text\<close>: the number of the leftmost match of
  \<open>\$?\s*(\d+(?:\.\d{1,2})?)\<close> is the leftmost decimal number of the text.
\<close>

definition parse_price_from_text :: "string \<Rightarrow> real option" where
  "parse_price_from_text text =
     (if text = [] then None
      else (case search_decimal text of
              Some m \<Rightarrow> Some (py_round 2 (decimal_value m))
            | None \<Rightarrow> None))"

text \<open>\<open>text.splitlines()\<close>, on the line boundaries below code point 256.\<close>

definition is_line_break :: "char \<Rightarrow> bool" where
  "is_line_break c =
     (let n = (of_char c :: nat)
      in (10 \<le> n \<and> n \<le> 13) \<or> (28 \<le> n \<and> n \<le> 30) \<or> n = 133)"

fun splitlines :: "string \<Rightarrow> string \<Rightarrow> string list" where
  "splitlines cur [] = (if cur = [] then [] else [cur])"
| "splitlines cur [c] = (if is_line_break c then [cur] else [cur @ [c]])"
| "splitlines cur (c # d # r) =
     (if c = CHR 0x0D \<and> d = CHR 0x0A then cur # splitlines [] r
      else if is_line_break c then cur # splitlines [] (d # r)
      else splitlines (cur @ [c]) (d # r))"

text \<open>
  The length of a match of \<open>\s*\$?\d+(?:\.\d{1,2})?\s*\<close> at the start of a text, when
  there is one.
\<close>

definition price_match_length :: "string \<Rightarrow> nat option" where
  "price_match_length s =
     (let leading = takeWhile is_space s;
          a = dropWhile is_space s;
          dollar = (case a of [] \<Rightarrow> False | c # r \<Rightarrow> c = CHR ''$'');
          b = (if dollar then drop 1 a else a)
      in case b of
           [] \<Rightarrow> None
         | c # r \<Rightarrow>
             if \<not> is_digit c then None
             else
               let ds = takeWhile is_digit b;
                   t = dropWhile is_digit b;
                   fraction = (case t of
                                 p # q # v \<Rightarrow>
                                   if p = CHR ''.'' \<and> is_digit q
                                   then CHR ''.'' # take 2 (takeWhile is_digit (q # v))
                                   else []
                               | _ \<Rightarrow> []);
                   trailing = takeWhile is_space (drop (length fraction) t)
               in Some (length leading + (if dollar then 1 else 0) + length ds
                        + length fraction + length trailing))"

text \<open>
  \<open>re.sub\<close> of that pattern by the empty string: \<open>skip\<close> counts the characters of the
  current match still to be dropped.
\<close>

fun remove_prices :: "nat \<Rightarrow> string \<Rightarrow> string" where
  "remove_prices skip [] = []"
| "remove_prices (Suc skip) (c # cs) = remove_prices skip cs"
| "remove_prices 0 (c # cs) =
     (case price_match_length (c # cs) of
        Some n \<Rightarrow> remove_prices (n - 1) cs
      | None \<Rightarrow> c # remove_prices 0 cs)"

text \<open>
  \<open>re.sub(r"\s{2,}", " ", .)\<close>; the flag tells that the run being read was replaced
  already.
\<close>

fun squeeze_runs :: "bool \<Rightarrow> string \<Rightarrow> string" where
  "squeeze_runs replaced [] = []"
| "squeeze_runs replaced [c] = (if is_space c \<and> replaced then [] else [c])"
| "squeeze_runs replaced (c # d # r) =
     (if is_space c
      then (if replaced then squeeze_runs True (d # r)
            else if is_space d then CHR '' '' # squeeze_runs True (d # r)
            else c # squeeze_runs False (d # r))
      else c # squeeze_runs False (d # r))"

text \<open>
  \<open>s.strip(" \<bullet>:-")\<close>; of its four characters the bullet is not below code point 256.
\<close>

definition strip_chars :: "string \<Rightarrow> string" where
  "strip_chars s =
     (let junk = (\<lambda>c. c = CHR '' '' \<or> c = CHR '':'' \<or> c = CHR ''-'')
      in rev (dropWhile junk (rev (dropWhile junk s))))"

fun guess_lines :: "string list \<Rightarrow> (string \<times> real option) list" where
  "guess_lines [] = []"
| "guess_lines (line # lines) =
     (if line = [] \<or> CHR ''$'' \<notin> set line then guess_lines lines
      else if length line > 120 then guess_lines lines
      else
        let price = parse_price_from_text line;
            cleaned = remove_prices 0 line;
            cleaned = strip_chars (squeeze_runs False cleaned)
        in if looks_like_menu_item cleaned then (cleaned, price) # guess_lines lines
           else guess_lines lines)"

definition guess_items_from_text :: "string \<Rightarrow> (string \<times> real option) list" where
  "guess_items_from_text text = guess_lines (map strip (splitlines [] text))"

text \<open>
  \<open>_parse_with_heuristics\<close>: the loop over the elements of one selector and the loop over
  the selectors, on the state \<open>(seen_names, items)\<close>; then the scan of the text.
\<close>

definition selectors :: "string list" where
  "selectors =
     [''[data-qa='' @ [CHR 0x27] @ ''menu-item'' @ [CHR 0x27] @ '']'',
      ''[data-test='' @ [CHR 0x27] @ ''menu-item'' @ [CHR 0x27] @ '']'',
      ''.menu-item'',
      ''.menu__item'',
      ''.product'',
      ''[class*='' @ [CHR 0x27] @ ''MenuItem'' @ [CHR 0x27] @ '']'']"

definition element_name :: "element \<Rightarrow> string option" where
  "element_name el =
     (let nm = (case data_name el of
                  Some s \<Rightarrow> if s \<noteq> [] then Some s else aria_label el
                | None \<Rightarrow> aria_label el);
          nm = (if nm = None \<or> nm = Some []
                then (case headline el of
                        Some h \<Rightarrow> if h \<noteq> [] then Some h else nm
                      | None \<Rightarrow> nm)
                else nm)
      in if nm = None \<or> nm = Some [] then None else nm)"

fun elements_loop ::
    "string \<Rightarrow> string \<Rightarrow> element list \<Rightarrow> string set \<times> ScrapedMenuItem list
       \<Rightarrow> string set \<times> ScrapedMenuItem list" where
  "elements_loop restaurant url [] state = state"
| "elements_loop restaurant url (el # els) (seen_names, items) =
     (case element_name el of
        None \<Rightarrow> elements_loop restaurant url els (seen_names, items)
      | Some raw_name \<Rightarrow>
          (let nm = strip raw_name
           in if nm \<in> seen_names \<or> \<not> looks_like_menu_item nm
              then elements_loop restaurant url els (seen_names, items)
              else elements_loop restaurant url els
                     (insert nm seen_names,
                      items @ [\<lparr> scraped_restaurant = restaurant,
                                 scraped_name = nm,
                                 scraped_price = parse_price_from_text (element_text el),
                                 scraped_calories = None,
                                 scraped_protein_grams = None,
                                 scraped_category = None,
                                 source_url = Some url,
                                 raw = None \<rparr>])))"

fun selectors_loop ::
    "string \<Rightarrow> string \<Rightarrow> soup \<Rightarrow> string list \<Rightarrow> string set \<times> ScrapedMenuItem list
       \<Rightarrow> string set \<times> ScrapedMenuItem list" where
  "selectors_loop restaurant url sp [] state = state"
| "selectors_loop restaurant url sp (css_selector # more_selectors) state =
     selectors_loop restaurant url sp more_selectors
       (elements_loop restaurant url (select sp css_selector) state)"

fun text_items_loop ::
    "string \<Rightarrow> string \<Rightarrow> string set \<Rightarrow> (string \<times> real option) list \<Rightarrow> ScrapedMenuItem list" where
  "text_items_loop restaurant url seen_names [] = []"
| "text_items_loop restaurant url seen_names (text_item # text_items) =
     (if fst text_item \<in> seen_names then text_items_loop restaurant url seen_names text_items
      else \<lparr> scraped_restaurant = restaurant,
             scraped_name = fst text_item,
             scraped_price = snd text_item,
             scraped_calories = None,
             scraped_protein_grams = None,
             scraped_category = None,
             source_url = Some url,
             raw = None \<rparr>
           # text_items_loop restaurant url seen_names text_items)"

definition parse_with_heuristics :: "string \<Rightarrow> string \<Rightarrow> soup \<Rightarrow> ScrapedMenuItem list" where
  "parse_with_heuristics restaurant url sp =
     (case selectors_loop restaurant url sp selectors ({}, []) of
        (seen_names, items) \<Rightarrow>
          if items = []
          then items @ text_items_loop restaurant url seen_names
                         (guess_items_from_text (page_text sp))
          else items)"

definition parse_structured_data ::
    "string \<Rightarrow> string \<Rightarrow> soup \<Rightarrow> py_error + ScrapedMenuItem list" where
  "parse_structured_data restaurant url sp = scripts_loop restaurant url (ld_json_scripts sp)"

text \<open>
  \<open>scrape_restaurant\<close>. \<open>fetch\<close> is the outcome of the request for a URL: it raises or
  gives the parsed document.
\<close>

definition scrape_restaurant ::
    "(string \<Rightarrow> py_error + soup) \<Rightarrow> string \<Rightarrow> py_error + ScrapedMenuItem list" where
  "scrape_restaurant fetch slug =
     (case map_of TARGETS slug of
        None \<Rightarrow> Inl ValueError
      | Some (restaurant_name, url) \<Rightarrow>
     (case fetch url of
        Inl e \<Rightarrow> Inl e
      | Inr sp \<Rightarrow>
     (case parse_structured_data restaurant_name url sp of
        Inl e \<Rightarrow> Inl e
      | Inr items \<Rightarrow>
          if items = [] then Inr (parse_with_heuristics restaurant_name url sp)
          else Inr items)))"

text \<open>The items of the two heuristic stages, each on its own.\<close>

definition selector_items :: "string \<Rightarrow> string \<Rightarrow> soup \<Rightarrow> ScrapedMenuItem list" where
  "selector_items restaurant url sp =
     snd (selectors_loop restaurant url sp selectors ({}, []))"

definition text_scan_items :: "string \<Rightarrow> string \<Rightarrow> soup \<Rightarrow> ScrapedMenuItem list" where
  "text_scan_items restaurant url sp =
     text_items_loop restaurant url {} (guess_items_from_text (page_text sp))"

text \<open>
  A document with a structured-data block for one item, an element that the selector
  stage would take for another item, and a text line that the text scan would take for
  a third; and a document with nothing but that text line.
\<close>

definition sample_soup :: soup where
  "sample_soup =
     \<lparr> ld_json_scripts =
         [None,
          Some (JObj [(''@type'', JStr ''MenuItem''), (''name'', JStr ''Big Mac''),
                      (''offers'', JObj [(''price'', JStr ''5.99'')])])],
       select = (\<lambda>css_selector.
         if css_selector = ''.menu-item''
         then [\<lparr> data_name = Some ''Spicy Deluxe'', aria_label = None, headline = None,
                   element_text = ''Spicy Deluxe $7.49'' \<rparr>]
         else []),
       page_text = ''Large Fries $2.99'' \<rparr>"

definition sample_text_soup :: soup where
  "sample_text_soup =
     \<lparr> ld_json_scripts = [], select = (\<lambda>css_selector. []),
       page_text = ''Large Fries $2.99'' \<rparr>"

definition sample_url :: string where
  "sample_url = ''https://www.subway.com/en-us/menunutrition/menu''"

definition sample_scraped :: "string \<Rightarrow> real \<Rightarrow> json option \<Rightarrow> ScrapedMenuItem" where
  "sample_scraped nm pr entry =
     \<lparr> scraped_restaurant = ''Subway'', scraped_name = nm, scraped_price = Some pr,
       scraped_calories = None, scraped_protein_grams = None, scraped_category = None,
       source_url = Some sample_url, raw = entry \<rparr>"

definition sample_entry :: json where
  "sample_entry =
     JObj [(''@type'', JStr ''MenuItem''), (''name'', JStr ''Big Mac''),
           (''offers'', JObj [(''price'', JStr ''5.99'')])]"


section \<open>Rounding lemmas\<close>

lemma round_half_even_lower: "\<lfloor>y\<rfloor> \<le> round_half_even y"
  by (simp add: round_half_even_def Let_def)

lemma round_half_even_upper: "round_half_even y \<le> \<lceil>y\<rceil>"
proof -
  have "y \<noteq> of_int \<lfloor>y\<rfloor> \<Longrightarrow> \<lceil>y\<rceil> = \<lfloor>y\<rfloor> + 1"
    by (metis ceiling_altdef)
  moreover have "y = of_int \<lfloor>y\<rfloor> \<Longrightarrow> round_half_even y = \<lfloor>y\<rfloor>"
    by (simp add: round_half_even_def Let_def)
  ultimately show ?thesis
    by (cases "y = of_int \<lfloor>y\<rfloor>") (auto simp: round_half_even_def Let_def)
qed

lemma round_half_even_of_int: "round_half_even (of_int n) = n"
  by (simp add: round_half_even_def Let_def)

lemma py_round_ge:
  assumes "of_int a / 10 ^ nd \<le> x"
  shows "of_int a / 10 ^ nd \<le> py_round nd x"
proof -
  have "of_int a \<le> x * 10 ^ nd"
    using assms by (simp add: pos_divide_le_eq)
  then have "a \<le> \<lfloor>x * 10 ^ nd\<rfloor>"
    by (simp add: le_floor_iff)
  then have "a \<le> round_half_even (x * 10 ^ nd)"
    using round_half_even_lower [of "x * 10 ^ nd"] by linarith
  then show ?thesis
    by (simp add: py_round_def divide_right_mono)
qed

lemma py_round_le:
  assumes "x \<le> of_int b / 10 ^ nd"
  shows "py_round nd x \<le> of_int b / 10 ^ nd"
proof -
  have "x * 10 ^ nd \<le> of_int b"
    using assms by (simp add: pos_le_divide_eq)
  then have "\<lceil>x * 10 ^ nd\<rceil> \<le> b"
    by (simp add: ceiling_le_iff)
  then have "round_half_even (x * 10 ^ nd) \<le> b"
    using round_half_even_upper [of "x * 10 ^ nd"] by linarith
  then show ?thesis
    by (simp add: py_round_def divide_right_mono)
qed

lemma py_round_nonneg: "0 \<le> x \<Longrightarrow> 0 \<le> py_round nd x"
  using py_round_ge [of 0 nd x] by simp

lemma py_round_le_100: "x \<le> 100 \<Longrightarrow> py_round nd x \<le> 100"
  using py_round_le [of x "100 * 10 ^ nd" nd] by simp

lemma py_round_zero: "py_round nd 0 = 0"
  by (simp add: py_round_def round_half_even_def)

lemma py_round_idem: "py_round nd (py_round nd x) = py_round nd x"
  by (simp add: py_round_def round_half_even_of_int)

lemma clamp_range: "0 \<le> clamp x 0 100 \<and> clamp x 0 100 \<le> 100"
  by (simp add: clamp_def)

lemma satiety_range:
  "0 \<le> calculate_satiety_score c p \<and> calculate_satiety_score c p \<le> 100"
  by (simp add: calculate_satiety_score_def Let_def py_round_nonneg py_round_le_100
      clamp_range split: option.splits)

lemma price_efficiency_range:
  "0 \<le> calculate_price_efficiency_score pr c \<and> calculate_price_efficiency_score pr c \<le> 100"
  by (simp add: calculate_price_efficiency_score_def Let_def py_round_nonneg py_round_le_100
      clamp_range split: option.splits)


section \<open>Claims about the value scorer\<close>

text \<open>
  C1. For calories \<open>> 0\<close>, protein \<open>\<ge> 0\<close> and price \<open>> 0\<close>, the scorer returns a result
  whose \<open>satiety_score\<close>, \<open>price_efficiency_score\<close> and \<open>value_score\<close> all lie in
  \<open>[0, 100]\<close>, and whose \<open>value_score\<close> is exactly
  \<open>round(satiety_score * 0.4 + price_efficiency_score * 0.6, 1)\<close>.
\<close>

theorem final_value_score_range_and_weights:
  assumes "0 < c" and "0 \<le> p" and "0 < pr"
  shows "\<exists>r. calculate_final_value_score (Some c) (Some p) (Some pr) = Inr r
           \<and> 0 \<le> satiety_score r \<and> satiety_score r \<le> 100
           \<and> 0 \<le> price_efficiency_score r \<and> price_efficiency_score r \<le> 100
           \<and> 0 \<le> value_score r \<and> value_score r \<le> 100
           \<and> value_score r
               = py_round 1 (satiety_score r * 0.4 + price_efficiency_score r * 0.6)"
proof -
  define s where "s = calculate_satiety_score (Some c) (Some p)"
  define e where "e = calculate_price_efficiency_score (Some pr) (Some c)"
  have s_rounded: "py_round 1 s = s"
    using assms(1)
    by (simp add: s_def calculate_satiety_score_def Let_def py_round_idem)
  have e_rounded: "py_round 1 e = e"
    using assms(1,3)
    by (simp add: e_def calculate_price_efficiency_score_def Let_def py_round_idem
        py_round_zero)
  have s_rng: "0 \<le> s \<and> s \<le> 100"
    unfolding s_def by (rule satiety_range)
  have e_rng: "0 \<le> e \<and> e \<le> 100"
    unfolding e_def by (rule price_efficiency_range)
  have lo: "0 \<le> s * 0.4 + e * 0.6"
    using s_rng e_rng by simp
  have hi: "s * 0.4 + e * 0.6 \<le> 100"
    using s_rng e_rng by simp
  have res: "calculate_final_value_score (Some c) (Some p) (Some pr)
      = Inr \<lparr> value_score = py_round 1 (s * 0.4 + e * 0.6), satiety_score = s,
              price_per_calorie = py_round 4 (pr / of_int c),
              price_efficiency_score = e \<rparr>"
    using assms(1) s_rounded e_rounded
    by (simp add: calculate_final_value_score_def Let_def
        s_def [symmetric] e_def [symmetric])
  show ?thesis
    using s_rng e_rng py_round_nonneg [OF lo] py_round_le_100 [OF hi]
    by (simp add: res)
qed

theorem final_value_score_range_and_weights_witness:
  "(0::int) < 800 \<and> (0::real) \<le> 30 \<and> (0::real) < 9
   \<and> (\<exists>r. calculate_final_value_score (Some 800) (Some 30) (Some 9) = Inr r
           \<and> 0 \<le> satiety_score r \<and> satiety_score r \<le> 100
           \<and> 0 \<le> price_efficiency_score r \<and> price_efficiency_score r \<le> 100
           \<and> 0 \<le> value_score r \<and> value_score r \<le> 100
           \<and> value_score r
               = py_round 1 (satiety_score r * 0.4 + price_efficiency_score r * 0.6))"
  using final_value_score_range_and_weights [of 800 30 9] by simp

text \<open>
  C8. Degenerate inputs give a zero component, and the two component functions are total:
  the satiety score is \<open>0\<close> when calories is \<open>None\<close> or \<open>\<le> 0\<close>, whatever the protein;
  a negative protein counts as zero protein; the price-efficiency score is \<open>0\<close> when the
  price is \<open>None\<close> or \<open>\<le> 0\<close>, or calories is \<open>None\<close> or \<open>\<le> 0\<close>.
\<close>

theorem degenerate_inputs_score_zero:
  "(c1 = None \<or> c1 = Some n1 \<and> n1 \<le> 0 \<longrightarrow> calculate_satiety_score c1 p1 = 0)
   \<and> (q < 0 \<longrightarrow> calculate_satiety_score c2 (Some q) = calculate_satiety_score c2 (Some 0))
   \<and> (pr3 = None \<or> pr3 = Some x3 \<and> x3 \<le> 0 \<or> c3 = None \<or> c3 = Some n3 \<and> n3 \<le> 0
        \<longrightarrow> calculate_price_efficiency_score pr3 c3 = 0)"
  by (auto simp: calculate_satiety_score_def calculate_price_efficiency_score_def
      split: option.splits)

theorem degenerate_inputs_score_zero_witness:
  "calculate_satiety_score (Some 0) (Some 25) = 0
   \<and> calculate_satiety_score (Some 500) (Some (- 3)) = calculate_satiety_score (Some 500) (Some 0)
   \<and> calculate_price_efficiency_score (Some (- 1)) (Some 500) = 0"
  using degenerate_inputs_score_zero
    [of "Some 0" 0 "Some 25" "- 3" "Some 500" "Some (- 1)" "- 1" "Some 500" 500]
  by simp

text \<open>
  C9 as stated fails for a negative price: \<open>price = -5\<close> and \<open>calories = 100\<close> give
  \<open>price_per_calorie = -0.05\<close>.
\<close>

theorem price_per_calorie_negative_counterexample:
  "map_sum id price_per_calorie (calculate_final_value_score (Some 100) None (Some (- 5)))
     = Inr (- 0.05)
   \<and> \<not> (0::real) \<le> - 0.05"
  by (simp add: calculate_final_value_score_def Let_def py_round_def round_half_even_def)

text \<open>
  C9, amended. For every numeric price, \<open>price_per_calorie\<close> is
  \<open>round(price / calories, 4)\<close> when calories \<open>> 0\<close> and \<open>0.0\<close> otherwise; it is \<open>\<ge> 0\<close>
  whenever the price is \<open>\<ge> 0\<close>.
\<close>

theorem price_per_calorie_value:
  "\<exists>r. calculate_final_value_score c p (Some pr) = Inr r
     \<and> price_per_calorie r
         = (case c of None \<Rightarrow> 0
            | Some n \<Rightarrow> if 0 < n then py_round 4 (pr / of_int n) else 0)
     \<and> (0 \<le> pr \<longrightarrow> 0 \<le> price_per_calorie r)"
  by (auto simp: calculate_final_value_score_def Let_def py_round_nonneg split: option.splits)

theorem price_per_calorie_value_witness:
  "\<exists>r. calculate_final_value_score (Some 500) (Some 30) (Some 5) = Inr r
     \<and> price_per_calorie r = 0.01
     \<and> 0 \<le> price_per_calorie r"
proof -
  from price_per_calorie_value [of "Some 500" "Some 30" 5]
  obtain r where r: "calculate_final_value_score (Some 500) (Some 30) (Some 5) = Inr r"
    and ppc: "price_per_calorie r = py_round 4 (5 / of_int 500)"
    and nonneg: "0 \<le> price_per_calorie r"
    by auto
  have "price_per_calorie r = 0.01"
    unfolding ppc by (simp add: py_round_def round_half_even_def)
  with r nonneg show ?thesis
    by blast
qed

section \<open>Lemmas on price parsing\<close>

lemma py_round_of_int: "py_round nd (of_int k / 10 ^ nd) = of_int k / 10 ^ nd"
  by (simp add: py_round_def round_half_even_of_int)









section \<open>Claims about the state extractor\<close>




section \<open>Lemmas on the menu loops and the deduplication\<close>





lemma lower_empty: "lower c = [] \<longleftrightarrow> c = []"
  by (simp add: lower_def)











section \<open>Lemmas on the estimator fallback\<close>

lemma scored_total:
  "0 < c \<Longrightarrow> \<exists>s. calculate_final_value_score (Some c) (Some p) (Some price) = Inr s
     \<and> scored c p price = Inr \<lparr> deal_value_score = value_score s,
                deal_satiety_score = satiety_score s,
                deal_price_per_calorie = price_per_calorie s,
                deal_calories = c, deal_protein_grams = p \<rparr>"
  by (simp add: scored_def calculate_final_value_score_def Let_def)

lemma fallback_handlers:
  "snd (estimate_with_fallback B price outcome) =
     (case estimate_nutrition B price outcome of
        Inr result \<Rightarrow> Inr result
      | Inl e \<Rightarrow> scored 600 20 price)"
  by (simp add: estimate_with_fallback_def split: sum.splits py_error.splits)




lemma fallback_conversion_raises:
  assumes "py_int B (dict_get_or_zero d ''calories'') = Inl e
     \<or> py_float B (dict_get_or_zero d ''protein'') = Inl e"
  shows "snd (estimate_with_fallback B price (ReplyJson (JObj d))) = scored 600 20 price"
  using assms
  by (auto simp: fallback_handlers estimate_nutrition_def split: sum.splits)

lemma fallback_effects:
  "fst (estimate_with_fallback B price outcome) = [RateLimiterAcquire, GenerateContent]"
  by (simp add: estimate_with_fallback_def)


section \<open>Claims about the score orchestrator\<close>



text \<open>
  C7. With provided calories \<open>> 0\<close> the result of \<open>score_deal\<close> does not depend on the
  estimator: any two estimator outcomes (and any two text parsers) give the same result,
  no rate-limiter or estimator effect is performed, and the result is the score of the
  provided calories and the provided protein, \<open>0\<close> when the protein is absent.
\<close>

theorem score_deal_provided_ignores_estimator:
  assumes "0 < c"
  shows "score_deal B1 price (Some c) protein_grams outcome1
           = score_deal B2 price (Some c) protein_grams outcome2
         \<and> fst (score_deal B1 price (Some c) protein_grams outcome1) = []
         \<and> (\<exists>s. calculate_final_value_score (Some c)
                    (Some (case protein_grams of None \<Rightarrow> 0 | Some p \<Rightarrow> p)) (Some price) = Inr s
              \<and> snd (score_deal B1 price (Some c) protein_grams outcome1)
                  = Inr \<lparr> deal_value_score = value_score s,
                          deal_satiety_score = satiety_score s,
                          deal_price_per_calorie = price_per_calorie s,
                          deal_calories = c,
                          deal_protein_grams = (case protein_grams of None \<Rightarrow> 0 | Some p \<Rightarrow> p) \<rparr>)"
proof -
  have sd: "\<And>B outcome. score_deal B price (Some c) protein_grams outcome
      = ([], scored c (case protein_grams of None \<Rightarrow> 0 | Some p \<Rightarrow> p) price)"
    using assms by (simp add: score_deal_def)
  show ?thesis
    using scored_total [OF assms, of "case protein_grams of None \<Rightarrow> 0 | Some p \<Rightarrow> p" price]
    by (simp add: sd)
qed

theorem score_deal_provided_ignores_estimator_witness:
  "(0::int) < 540
   \<and> (score_deal sample_builtins 5 (Some 540) None CallRaises
       = score_deal sample_builtins 5 (Some 540) None
           (ReplyJson (JObj [(''calories'', JNum 900), (''protein'', JNum 40)]))
     \<and> fst (score_deal sample_builtins 5 (Some 540) None CallRaises) = []
     \<and> (\<exists>s. calculate_final_value_score (Some 540)
                (Some (case None of None \<Rightarrow> 0 | Some p \<Rightarrow> p)) (Some 5) = Inr s
          \<and> snd (score_deal sample_builtins 5 (Some 540) None CallRaises)
              = Inr \<lparr> deal_value_score = value_score s,
                      deal_satiety_score = satiety_score s,
                      deal_price_per_calorie = price_per_calorie s,
                      deal_calories = 540,
                      deal_protein_grams = (case None of None \<Rightarrow> 0 | Some p \<Rightarrow> p) \<rparr>))"
proof -
  have pos: "(0::int) < 540" by simp
  show ?thesis
    by (rule conjI [OF pos score_deal_provided_ignores_estimator [OF pos]])
qed

section \<open>Lemmas on the store deduplication\<close>

lemma unique_loop_spec:
  "\<exists>ys. unique_loop stores seen unique_stores = unique_stores @ ys
     \<and> subseq ys stores
     \<and> distinct (map store_id ys)
     \<and> store_id ` set ys = store_id ` set stores - seen
     \<and> (\<forall>y\<in>set ys. find (\<lambda>z. store_id z = store_id y) stores = Some y)"
proof (induction stores arbitrary: seen unique_stores)
  case Nil
  then show ?case by simp
next
  case (Cons store stores)
  show ?case
  proof (cases "store_id store \<in> seen")
    case True
    from Cons.IH [of seen unique_stores] obtain ys where
      eq: "unique_loop stores seen unique_stores = unique_stores @ ys"
      and sub: "subseq ys stores"
      and dist: "distinct (map store_id ys)"
      and ids: "store_id ` set ys = store_id ` set stores - seen"
      and firsts: "\<forall>y\<in>set ys. find (\<lambda>z. store_id z = store_id y) stores = Some y"
      by blast
    have 1: "unique_loop (store # stores) seen unique_stores = unique_stores @ ys"
      using True eq by simp
    have 2: "subseq ys (store # stores)"
      using sub by (rule list_emb_Cons)
    have 3: "store_id ` set ys = store_id ` set (store # stores) - seen"
      using ids True by auto
    have 4: "\<forall>y\<in>set ys. find (\<lambda>z. store_id z = store_id y) (store # stores) = Some y"
    proof
      fix y assume y: "y \<in> set ys"
      then have "store_id y \<notin> seen" using ids by blast
      then have "store_id store \<noteq> store_id y" using True by metis
      then show "find (\<lambda>z. store_id z = store_id y) (store # stores) = Some y"
        using firsts y by simp
    qed
    show ?thesis using 1 2 dist 3 4 by blast
  next
    case False
    let ?seen = "insert (store_id store) seen"
    from Cons.IH [of ?seen "unique_stores @ [store]"] obtain ys where
      eq: "unique_loop stores ?seen (unique_stores @ [store]) = (unique_stores @ [store]) @ ys"
      and sub: "subseq ys stores"
      and dist: "distinct (map store_id ys)"
      and ids: "store_id ` set ys = store_id ` set stores - ?seen"
      and firsts: "\<forall>y\<in>set ys. find (\<lambda>z. store_id z = store_id y) stores = Some y"
      by blast
    let ?ys = "store # ys"
    have 1: "unique_loop (store # stores) seen unique_stores = unique_stores @ ?ys"
      using False eq by simp
    have 2: "subseq ?ys (store # stores)"
      using sub by simp
    have fresh: "store_id store \<notin> store_id ` set ys"
      using ids by blast
    have 3: "distinct (map store_id ?ys)"
      using dist fresh by simp
    have 4: "store_id ` set ?ys = store_id ` set (store # stores) - seen"
      using ids False by auto
    have 5: "\<forall>y\<in>set ?ys. find (\<lambda>z. store_id z = store_id y) (store # stores) = Some y"
    proof
      fix y assume "y \<in> set ?ys"
      then consider "y = store" | "y \<in> set ys" by auto
      then show "find (\<lambda>z. store_id z = store_id y) (store # stores) = Some y"
      proof cases
        case 1
        then show ?thesis by simp
      next
        case 2
        then have "store_id store \<noteq> store_id y" using fresh by force
        then show ?thesis using firsts 2 by simp
      qed
    qed
    show ?thesis using 1 2 3 4 5 by blast
  qed
qed

lemma unique_loop_initial:
  fixes stores :: "UberEatsStore list"
  defines "ys \<equiv> unique_loop stores {} []"
  shows "subseq ys stores"
    and "distinct (map store_id ys)"
    and "store_id ` set ys = store_id ` set stores"
    and "\<forall>y\<in>set ys. find (\<lambda>z. store_id z = store_id y) stores = Some y"
    and "length ys = card (store_id ` set stores)"
proof -
  from unique_loop_spec [of stores "{}" "[]"]
  show a: "subseq ys stores" and b: "distinct (map store_id ys)"
    and c: "store_id ` set ys = store_id ` set stores"
    and d: "\<forall>y\<in>set ys. find (\<lambda>z. store_id z = store_id y) stores = Some y"
    unfolding ys_def by auto
  have "length ys = length (map store_id ys)" by simp
  also have "\<dots> = card (set (map store_id ys))"
    using b by (simp only: distinct_card)
  also have "\<dots> = card (store_id ` set stores)"
    using c by simp
  finally show "length ys = card (store_id ` set stores)" .
qed


lemma subseq_take_self: "subseq (take n xs) xs"
proof -
  have "subseq (take n xs) (take n xs @ drop n xs)"
    by (rule list_emb_prefix) simp
  then show ?thesis by simp
qed

lemma try_direct_at_most_one:
  "length (try_direct_store_url L rn loc lat lon) \<le> 1"
  by (simp add: try_direct_store_url_def Let_def split: option.splits)

lemma parse_search_results_bounds:
  "length (parse_search_results L page rn loc lat lon) \<le> 10
   \<and> distinct (map store_id (parse_search_results L page rn loc lat lon))"
proof -
  have "distinct (map store_id (unique_loop (collected_stores L page rn loc lat lon) {} []))"
    by (rule unique_loop_initial(2))
  then have "distinct (take 10
      (map store_id (unique_loop (collected_stores L page rn loc lat lon) {} [])))"
    by (rule distinct_take)
  then show ?thesis
    by (simp add: parse_search_results_def take_map)
qed

lemma search_uber_eats_bounds:
  "length (search_uber_eats L response rn loc lat lon) \<le> 10
   \<and> distinct (map store_id (search_uber_eats L response rn loc lat lon))"
proof (cases response)
  case (Inl e)
  then show ?thesis by (simp add: search_uber_eats_def)
next
  case (Inr page)
  show ?thesis
  proof (cases "parse_search_results L page rn loc lat lon = []")
    case True
    have "length (try_direct_store_url L rn loc lat lon) \<le> 1"
      by (rule try_direct_at_most_one)
    moreover from this have "distinct (map store_id (try_direct_store_url L rn loc lat lon))"
      by (cases "try_direct_store_url L rn loc lat lon") simp_all
    ultimately show ?thesis
      using True Inr by (simp add: search_uber_eats_def)
  next
    case False
    then show ?thesis
      using Inr parse_search_results_bounds [of L page rn loc lat lon]
      by (simp add: search_uber_eats_def Let_def)
  qed
qed

lemma search_stores_bounds:
  "length (search_stores B L geocode_reply response rn loc lat lon) \<le> 10
   \<and> distinct (map store_id (search_stores B L geocode_reply response rn loc lat lon))"
  using search_uber_eats_bounds
  by (simp add: search_stores_def split: prod.splits option.splits)

section \<open>Claims about the store locator\<close>

text \<open>
  C5. For every search-result page the list returned by \<open>_parse_search_results\<close> has at
  most 10 entries with pairwise distinct \<open>store_id\<close>; it keeps the discovery order, the
  anchor matches before the state matches, and each entry is the first collected store
  with its id; its length is the number of distinct ids capped at 10, so 15 distinct
  matched ids give exactly 10 entries.
\<close>

theorem parse_search_results_dedup_cap:
  fixes L page rn loc lat lon
  defines "result \<equiv> parse_search_results L page rn loc lat lon"
    and "collected \<equiv> collected_stores L page rn loc lat lon"
  shows "length result \<le> 10
     \<and> distinct (map store_id result)
     \<and> subseq result (anchor_stores L page rn loc lat lon @ state_stores L page rn loc lat lon)
     \<and> (\<forall>y\<in>set result. find (\<lambda>z. store_id z = store_id y) collected = Some y)
     \<and> length result = min 10 (card (store_id ` set collected))
     \<and> (distinct (map store_id collected) \<and> length collected = 15 \<longrightarrow> length result = 10)
     \<and> length (search_stores B L geocode_reply response rn loc olat olon) \<le> 10
     \<and> distinct (map store_id (search_stores B L geocode_reply response rn loc olat olon))"
proof -
  define ys where "ys = unique_loop collected {} []"
  have result: "result = take 10 ys"
    by (simp add: result_def parse_search_results_def ys_def collected_def)
  have sub: "subseq ys collected"
    and dist: "distinct (map store_id ys)"
    and firsts: "\<forall>y\<in>set ys. find (\<lambda>z. store_id z = store_id y) collected = Some y"
    and len: "length ys = card (store_id ` set collected)"
    unfolding ys_def by (rule unique_loop_initial)+
  have 1: "length result \<le> 10"
    by (simp add: result)
  have 2: "distinct (map store_id result)"
    unfolding result take_map [symmetric] using dist by (rule distinct_take)
  have "subseq collected
      (anchor_stores L page rn loc lat lon @ state_stores L page rn loc lat lon)"
    by (cases "anchor_stores L page rn loc lat lon = []")
       (simp_all add: collected_def collected_stores_def Let_def list_emb_prefix)
  with sub have "subseq ys
      (anchor_stores L page rn loc lat lon @ state_stores L page rn loc lat lon)"
    by (rule subseq_order.trans)
  with subseq_take_self [of 10 ys] have 3: "subseq result
      (anchor_stores L page rn loc lat lon @ state_stores L page rn loc lat lon)"
    unfolding result by (rule subseq_order.trans)
  have 4: "\<forall>y\<in>set result. find (\<lambda>z. store_id z = store_id y) collected = Some y"
    using firsts unfolding result by (meson in_set_takeD)
  have 5: "length result = min 10 (card (store_id ` set collected))"
    by (simp add: result len min.commute)
  have 6: "distinct (map store_id collected) \<and> length collected = 15 \<longrightarrow> length result = 10"
  proof
    assume h: "distinct (map store_id collected) \<and> length collected = 15"
    then have "card (store_id ` set collected) = 15"
      using distinct_card [of "map store_id collected"] by simp
    then show "length result = 10" using 5 by simp
  qed
  show ?thesis
    using 1 2 3 4 5 6 search_stores_bounds [of B L geocode_reply response rn loc olat olon]
    by blast
qed

lemma sample_collected:
  "collected_stores sample_library sample_search_page ''KFC'' ''Philadelphia'' 40 75
     = map sample_store sample_store_ids"
  by (simp add: collected_stores_def anchor_stores_def sample_search_page_def
      sample_store_ids_def sample_library_def sample_store_def first_part_def
      lower_def lower_char_def Let_def char_of_def bit_Suc_0_iff)


lemma sample_parsed_ids:
  "map store_id
     (parse_search_results sample_library sample_search_page ''KFC'' ''Philadelphia'' 40 75)
   = take 10 sample_store_ids"
  unfolding parse_search_results_def sample_collected
  by (simp add: sample_store_ids_def sample_store_def)

theorem parse_search_results_dedup_cap_witness:
  "length (collected_stores sample_library sample_search_page ''KFC'' ''Philadelphia'' 40 75) = 15
   \<and> distinct (map store_id
        (collected_stores sample_library sample_search_page ''KFC'' ''Philadelphia'' 40 75))
   \<and> length (parse_search_results sample_library sample_search_page ''KFC'' ''Philadelphia''
        40 75) = 10
   \<and> distinct (map store_id
        (parse_search_results sample_library sample_search_page ''KFC'' ''Philadelphia'' 40 75))
   \<and> map store_id
        (parse_search_results sample_library sample_search_page ''KFC'' ''Philadelphia'' 40 75)
       = take 10 sample_store_ids"
proof -
  have len: "length
      (collected_stores sample_library sample_search_page ''KFC'' ''Philadelphia'' 40 75) = 15"
    unfolding sample_collected by (simp add: sample_store_ids_def)
  have dist: "distinct (map store_id
      (collected_stores sample_library sample_search_page ''KFC'' ''Philadelphia'' 40 75))"
    unfolding sample_collected by (simp add: sample_store_ids_def sample_store_def)
  from parse_search_results_dedup_cap
    [of sample_library sample_search_page "''KFC''" "''Philadelphia''" 40 75
      sample_builtins "Inl HTTPError" "Inl HTTPError" None None] len dist
  have "length (parse_search_results sample_library sample_search_page ''KFC''
      ''Philadelphia'' 40 75) = 10"
    and "distinct (map store_id (parse_search_results sample_library sample_search_page
      ''KFC'' ''Philadelphia'' 40 75))"
    by blast+
  with len dist sample_parsed_ids show ?thesis
    by blast
qed


lemma falsy_zero: "falsy_coordinate (Some 0)"
  by (simp add: falsy_coordinate_def)

text \<open>
  C10. When the resolved latitude or longitude is exactly \<open>0.0\<close>, geocoded or passed in
  by the caller, \<open>search_stores\<close> returns the empty list: the truthiness test treats the
  coordinate as a geocoding failure.
\<close>

theorem search_stores_zero_coordinate_empty:
  assumes "resolve_coordinates B geocode_reply lat lon = (lat', lon')"
    and "lat' = Some 0 \<or> lon' = Some 0"
  shows "search_stores B L geocode_reply response rn loc lat lon = []"
  using assms by (auto simp: search_stores_def falsy_zero)


lemma sample_geocoded:
  "resolve_coordinates sample_builtins (Inr sample_geocode_reply) None None = (Some 0, Some 78)"
  by (simp add: resolve_coordinates_def geocode_location_def geocode_try_def
      sample_geocode_reply_def sample_builtins_def is_digit_def digits_value_def)

lemma sample_passed:
  "resolve_coordinates sample_builtins (Inl HTTPError) (Some 40) (Some 0) = (Some 40, Some 0)"
  by (simp add: resolve_coordinates_def)

theorem search_stores_zero_coordinate_empty_witness:
  "resolve_coordinates sample_builtins (Inr sample_geocode_reply) None None = (Some 0, Some 78)
   \<and> search_stores sample_builtins sample_library (Inr sample_geocode_reply)
        (Inr sample_search_page) ''KFC'' ''Quito'' None None = []
   \<and> resolve_coordinates sample_builtins (Inl HTTPError) (Some 40) (Some 0) = (Some 40, Some 0)
   \<and> search_stores sample_builtins sample_library (Inl HTTPError)
        (Inr sample_search_page) ''KFC'' ''Greenwich'' (Some 40) (Some 0) = []"
  using sample_geocoded sample_passed
    search_stores_zero_coordinate_empty [OF sample_geocoded, of sample_library
      "Inr sample_search_page" "''KFC''" "''Quito''"]
    search_stores_zero_coordinate_empty [OF sample_passed, of sample_library
      "Inr sample_search_page" "''KFC''" "''Greenwich''"]
  by simp

section \<open>Lemmas on the heuristic stages\<close>

lemma elements_loop_seen:
  "seen = scraped_name ` set items \<Longrightarrow>
   fst (elements_loop r u els (seen, items))
     = scraped_name ` set (snd (elements_loop r u els (seen, items)))"
proof (induction els arbitrary: seen items)
  case Nil
  then show ?case by simp
next
  case (Cons el els)
  show ?case
  proof (cases "element_name el")
    case None
    then show ?thesis using Cons.IH [OF Cons.prems] by simp
  next
    case (Some raw_name)
    show ?thesis
    proof (cases "strip raw_name \<in> seen \<or> \<not> looks_like_menu_item (strip raw_name)")
      case True
      then show ?thesis using Some Cons.IH [OF Cons.prems] by (simp add: Let_def)
    next
      case False
      let ?item = "\<lparr> scraped_restaurant = r, scraped_name = strip raw_name,
          scraped_price = parse_price_from_text (element_text el),
          scraped_calories = None, scraped_protein_grams = None,
          scraped_category = None, source_url = Some u, raw = None \<rparr>"
      have "insert (strip raw_name) seen = scraped_name ` set (items @ [?item])"
        using Cons.prems by simp
      from Cons.IH [OF this] show ?thesis
        using Some False by (simp add: Let_def)
    qed
  qed
qed

lemma selectors_loop_seen:
  "fst state = scraped_name ` set (snd state) \<Longrightarrow>
   fst (selectors_loop r u sp sels state)
     = scraped_name ` set (snd (selectors_loop r u sp sels state))"
proof (induction sels arbitrary: state)
  case Nil
  then show ?case by simp
next
  case (Cons sel sels)
  obtain seen items where st: "state = (seen, items)" by (cases state)
  have "fst (elements_loop r u (select sp sel) state)
      = scraped_name ` set (snd (elements_loop r u (select sp sel) state))"
    using Cons.prems unfolding st by (simp add: elements_loop_seen)
  from Cons.IH [OF this] show ?case by simp
qed

lemma parse_with_heuristics_stages:
  "parse_with_heuristics r u sp =
     (if selector_items r u sp \<noteq> [] then selector_items r u sp else text_scan_items r u sp)"
proof -
  obtain seen items where st: "selectors_loop r u sp selectors ({}, []) = (seen, items)"
    by (cases "selectors_loop r u sp selectors ({}, [])")
  have "fst (selectors_loop r u sp selectors ({}, []))
      = scraped_name ` set (snd (selectors_loop r u sp selectors ({}, [])))"
    by (rule selectors_loop_seen) simp
  then have seen: "seen = scraped_name ` set items"
    by (simp add: st)
  show ?thesis
  proof (cases "items = []")
    case True
    then have "seen = {}" using seen by simp
    then show ?thesis
      using True by (simp add: parse_with_heuristics_def selector_items_def text_scan_items_def st)
  next
    case False
    then show ?thesis
      by (simp add: parse_with_heuristics_def selector_items_def st)
  qed
qed

section \<open>Claims about the document scraper\<close>

text \<open>
  C4. The stages of \<open>scrape_restaurant\<close> form a strict fallback chain. When the
  structured-data stage yields at least one item, exactly those items are returned; when
  it yields none and the selector stage yields an item, exactly the selector items are
  returned; the text scan contributes only when the selector stage yields nothing, and
  then its items alone are returned. No result mixes two stages.
\<close>

theorem scrape_restaurant_fallback_chain:
  assumes "map_of TARGETS slug = Some (restaurant_name, url)"
    and "fetch url = Inr sp"
    and "parse_structured_data restaurant_name url sp = Inr structured"
  shows "(structured \<noteq> [] \<longrightarrow> scrape_restaurant fetch slug = Inr structured)
     \<and> (structured = [] \<and> selector_items restaurant_name url sp \<noteq> []
          \<longrightarrow> scrape_restaurant fetch slug = Inr (selector_items restaurant_name url sp))
     \<and> (structured = [] \<and> selector_items restaurant_name url sp = []
          \<longrightarrow> scrape_restaurant fetch slug = Inr (text_scan_items restaurant_name url sp))
     \<and> parse_with_heuristics restaurant_name url sp
          = (if selector_items restaurant_name url sp \<noteq> []
             then selector_items restaurant_name url sp
             else text_scan_items restaurant_name url sp)"
  using assms
  by (simp add: scrape_restaurant_def parse_with_heuristics_stages)


lemma sample_target: "map_of TARGETS ''subway'' = Some (''Subway'', sample_url)"
  by (simp add: TARGETS_def sample_url_def)

lemmas text_eval =
  strip_def is_space_def search_decimal_def is_digit_def decimal_value_def digits_value_def
  py_round_def round_half_even_def lower_def lower_char_def Let_def char_of_def bit_Suc_0_iff

lemma sample_structured:
  "parse_structured_data ''Subway'' sample_url sample_soup
     = Inr [sample_scraped ''Big Mac'' 5.99 (Some sample_entry)]"
  by (simp add: parse_structured_data_def sample_soup_def sample_scraped_def sample_entry_def
      entry_types_def dict_get_def py_or_def coerce_fields_def extract_price_def
      dict_offer_price_def or_sub_get_def sub_get_def extract_nutrition_def text_eval)

lemma sample_selector_items:
  "selector_items ''Subway'' sample_url sample_soup
     = [sample_scraped ''Spicy Deluxe'' 7.49 None]"
  by (simp add: selector_items_def selectors_def sample_soup_def sample_scraped_def
      element_name_def looks_like_menu_item_def parse_price_from_text_def text_eval)

lemma sample_text_structured:
  "parse_structured_data ''Subway'' sample_url sample_text_soup = Inr []"
  by (simp add: parse_structured_data_def sample_text_soup_def)

lemma sample_text_selector_items:
  "selector_items ''Subway'' sample_url sample_text_soup = []"
  by (simp add: selector_items_def selectors_def sample_text_soup_def)

lemma sample_text_scan_items:
  "text_scan_items ''Subway'' sample_url sample_text_soup
     = [sample_scraped ''Large Fries'' 2.99 None]"
  by (simp add: text_scan_items_def sample_text_soup_def sample_scraped_def
      guess_items_from_text_def price_match_length_def strip_chars_def is_line_break_def
      looks_like_menu_item_def parse_price_from_text_def text_eval)

theorem scrape_restaurant_fallback_chain_witness:
  "map_of TARGETS ''subway'' = Some (''Subway'', sample_url)
   \<and> parse_structured_data ''Subway'' sample_url sample_soup
       = Inr [sample_scraped ''Big Mac'' 5.99 (Some sample_entry)]
   \<and> selector_items ''Subway'' sample_url sample_soup = [sample_scraped ''Spicy Deluxe'' 7.49 None]
   \<and> scrape_restaurant (\<lambda>u. Inr sample_soup) ''subway''
       = Inr [sample_scraped ''Big Mac'' 5.99 (Some sample_entry)]
   \<and> parse_structured_data ''Subway'' sample_url sample_text_soup = Inr []
   \<and> selector_items ''Subway'' sample_url sample_text_soup = []
   \<and> scrape_restaurant (\<lambda>u. Inr sample_text_soup) ''subway''
       = Inr [sample_scraped ''Large Fries'' 2.99 None]"
proof -
  have f1: "(\<lambda>u. Inr sample_soup :: py_error + soup) sample_url = Inr sample_soup" by simp
  have f2: "(\<lambda>u. Inr sample_text_soup :: py_error + soup) sample_url = Inr sample_text_soup"
    by simp
  from scrape_restaurant_fallback_chain [OF sample_target f1 sample_structured]
  have a: "scrape_restaurant (\<lambda>u. Inr sample_soup) ''subway''
       = Inr [sample_scraped ''Big Mac'' 5.99 (Some sample_entry)]"
    by simp
  from scrape_restaurant_fallback_chain [OF sample_target f2 sample_text_structured]
  have b: "scrape_restaurant (\<lambda>u. Inr sample_text_soup) ''subway''
       = Inr [sample_scraped ''Large Fries'' 2.99 None]"
    by (simp add: sample_text_selector_items sample_text_scan_items)
  show ?thesis
    using sample_target sample_structured sample_selector_items a
      sample_text_structured sample_text_selector_items b
    by blast
qed

end
